theory Spec2Isabelle
  imports Main "HOL-Library.Sublist"
begin

section \<open>Values shared by the components\<close>

text \<open>
  The errors a JavaScript call of this application can throw or reject with.
  \<open>HttpError status message\<close> is \<^verbatim>\<open>new Error(`HTTP error! status: ...`)\<close> of the API client,
  \<open>NetworkFailure\<close> the rejection of \<^verbatim>\<open>fetch\<close> itself, \<open>SyntaxError\<close> a body that is not JSON,
  \<open>TypeError\<close> a property read on \<^verbatim>\<open>undefined\<close> or \<^verbatim>\<open>null\<close>, \<open>RangeError\<close> what
  \<^verbatim>\<open>toISOString\<close> throws on an invalid date, and \<open>AppError\<close> the other \<^verbatim>\<open>new Error(msg)\<close>
  of the sources.
\<close>

datatype js_error =
    HttpError nat string
  | NetworkFailure
  | SyntaxError
  | TypeError
  | RangeError
  | PlatformError
  | AppError string

text \<open>The settled state of a promise: fulfilled with a value or rejected with an error.\<close>

datatype 'a outcome = Resolved 'a | Rejected js_error

text \<open>\<^verbatim>\<open>interface CalendarEvent\<close> of services/api.ts; optional fields are options.\<close>

record CalendarEvent =
  event_id :: string
  summary :: string
  description :: "string option"
  start_time :: string
  end_time :: string
  location :: "string option"
  attendees :: "string list option"
  calendar_id :: "string option"

section \<open>Loading events in the Today view and the Month view\<close>

text \<open>
  The promise chain \<^verbatim>\<open>p.then(f).catch(g).finally(h)\<close> of the two effects, with the component
  state passed explicitly. The handlers only call state setters, so none of them throws:
  \<^verbatim>\<open>then\<close> runs its handler on a fulfilled promise and passes a rejection on, \<^verbatim>\<open>catch\<close>
  runs its handler on a rejection and fulfils, \<^verbatim>\<open>finally\<close> always runs its handler.
\<close>

definition thenP :: "('a \<Rightarrow> 's \<Rightarrow> 's) \<Rightarrow> 'a outcome \<times> 's \<Rightarrow> unit outcome \<times> 's" where
  "thenP f p = (case fst p of
      Resolved v \<Rightarrow> (Resolved (), f v (snd p))
    | Rejected e \<Rightarrow> (Rejected e, snd p))"

definition catchP :: "(js_error \<Rightarrow> 's \<Rightarrow> 's) \<Rightarrow> unit outcome \<times> 's \<Rightarrow> unit outcome \<times> 's" where
  "catchP g p = (case fst p of
      Resolved v \<Rightarrow> (Resolved v, snd p)
    | Rejected e \<Rightarrow> (Resolved (), g e (snd p)))"

definition finallyP :: "('s \<Rightarrow> 's) \<Rightarrow> unit outcome \<times> 's \<Rightarrow> unit outcome \<times> 's" where
  "finallyP h p = (fst p, h (snd p))"

text \<open>The state of \<^verbatim>\<open>TodayView\<close>: its three \<^verbatim>\<open>useState\<close> cells.\<close>

record today_view =
  tv_events :: "CalendarEvent list"
  tv_loading :: bool
  tv_error :: "string option"

text \<open>
  The effect of \<^verbatim>\<open>TodayView\<close> (TodayView.tsx, \<^verbatim>\<open>useEffect\<close> on \<^verbatim>\<open>selectedDate\<close>).
  \<open>fetched\<close> is how \<^verbatim>\<open>apiService.getEvents(startOfDay, endOfDay)\<close> settles and \<open>mounted\<close> the
  value of the flag of the same name when the handlers run (the cleanup sets it to false).
\<close>

definition todayViewEffect :: "bool \<Rightarrow> CalendarEvent list outcome \<Rightarrow> today_view \<Rightarrow> today_view" where
  "todayViewEffect mounted fetched s =
     snd (finallyP (\<lambda>s. if mounted then s\<lparr>tv_loading := False\<rparr> else s)
       (catchP (\<lambda>err s. if mounted then s\<lparr>tv_error := Some ''Failed to load events.''\<rparr> else s)
         (thenP (\<lambda>data s. if mounted then s\<lparr>tv_events := data, tv_error := None\<rparr> else s)
           (fetched, s\<lparr>tv_loading := True\<rparr>))))"

text \<open>The state of \<^verbatim>\<open>MonthView\<close> that its effect touches, and the selected day.\<close>

record month_view =
  mv_monthEvents :: "CalendarEvent list"
  mv_selectedDay :: "nat option"
  mv_loading :: bool
  mv_error :: "string option"

text \<open>
  The effect of \<^verbatim>\<open>MonthView\<close> (MonthView.tsx, \<^verbatim>\<open>useEffect\<close> on \<^verbatim>\<open>monthRange\<close>);
  \<open>fetched\<close> is how \<^verbatim>\<open>apiService.getMonthEvents()\<close> settles.
\<close>

definition monthViewEffect :: "bool \<Rightarrow> CalendarEvent list outcome \<Rightarrow> month_view \<Rightarrow> month_view" where
  "monthViewEffect mounted fetched s =
     snd (finallyP (\<lambda>s. if mounted then s\<lparr>mv_loading := False\<rparr> else s)
       (catchP (\<lambda>err s. if mounted then s\<lparr>mv_error := Some ''Failed to load events.''\<rparr> else s)
         (thenP (\<lambda>data s. if mounted then s\<lparr>mv_monthEvents := data, mv_error := None\<rparr> else s)
           (fetched, s\<lparr>mv_loading := True\<rparr>))))"

lemma todayViewEffect_rejected:
  "todayViewEffect True (Rejected e) s =
     s\<lparr>tv_loading := False, tv_error := Some ''Failed to load events.''\<rparr>"
  by (simp add: todayViewEffect_def thenP_def catchP_def finallyP_def)

lemma monthViewEffect_rejected:
  "monthViewEffect True (Rejected e) s =
     s\<lparr>mv_loading := False, mv_error := Some ''Failed to load events.''\<rparr>"
  by (simp add: monthViewEffect_def thenP_def catchP_def finallyP_def)

lemma todayViewEffect_resolved:
  "todayViewEffect True (Resolved data) s =
     s\<lparr>tv_events := data, tv_loading := False, tv_error := None\<rparr>"
  by (simp add: todayViewEffect_def thenP_def catchP_def finallyP_def)

lemma monthViewEffect_resolved:
  "monthViewEffect True (Resolved data) s =
     s\<lparr>mv_monthEvents := data, mv_loading := False, mv_error := None\<rparr>"
  by (simp add: monthViewEffect_def thenP_def catchP_def finallyP_def)

text \<open>
  Claim C7. When the events fetch of the Today view or of the Month view rejects while the
  component is still mounted, the error state becomes the text \<open>Failed to load events.\<close>,
  the loading flag becomes false, and the stored events list is the one from before.
\<close>

theorem events_fetch_rejected:
  "tv_error (todayViewEffect True (Rejected e) s) = Some ''Failed to load events.''
   \<and> tv_loading (todayViewEffect True (Rejected e) s) = False
   \<and> tv_events (todayViewEffect True (Rejected e) s) = tv_events s
   \<and> mv_error (monthViewEffect True (Rejected e) m) = Some ''Failed to load events.''
   \<and> mv_loading (monthViewEffect True (Rejected e) m) = False
   \<and> mv_monthEvents (monthViewEffect True (Rejected e) m) = mv_monthEvents m"
  by (simp add: todayViewEffect_rejected monthViewEffect_rejected)

section \<open>JavaScript dates\<close>

text \<open>
  A \<^verbatim>\<open>Date\<close> object is either the invalid date (what \<^verbatim>\<open>new Date(s)\<close> gives for a string it
  cannot parse; every getter of it returns \<^verbatim>\<open>NaN\<close>) or a valid one. A valid date is kept in
  local time, as the getters and setters used here read and write it: the calendar day, as
  the number of days since 1970-01-01, and the millisecond of that day.
\<close>

datatype jsdate = InvalidDate | ValidDate int int

text \<open>
  The proleptic Gregorian calendar of ECMAScript's \<^verbatim>\<open>YearFromTime\<close>, \<^verbatim>\<open>MonthFromTime\<close>,
  \<^verbatim>\<open>DateFromTime\<close> and \<^verbatim>\<open>MakeDay\<close>: a day number to (year, month 1..12, day of month), and
  back. These are the platform's, not the repository's; they are written out so that the
  getters compute.
\<close>

definition civil_from_days :: "int \<Rightarrow> int \<times> int \<times> int" where
  "civil_from_days n =
     (let z = n + 719468;
          era = z div 146097;
          doe = z mod 146097;
          yoe = (doe - doe div 1460 + doe div 36524 - doe div 146096) div 365;
          doy = doe - (365 * yoe + yoe div 4 - yoe div 100);
          mp = (5 * doy + 2) div 153;
          d = doy - (153 * mp + 2) div 5 + 1;
          m = (if mp < 10 then mp + 3 else mp - 9);
          y = yoe + era * 400
      in (if m \<le> 2 then y + 1 else y, m, d))"

definition days_from_civil :: "int \<Rightarrow> int \<Rightarrow> int \<Rightarrow> int" where
  "days_from_civil y m d =
     (let y' = (if m \<le> 2 then y - 1 else y);
          era = y' div 400;
          yoe = y' mod 400;
          doy = (153 * (if m > 2 then m - 3 else m + 9) + 2) div 5 + d - 1;
          doe = yoe * 365 + yoe div 4 - yoe div 100 + doy
      in era * 146097 + doe - 719468)"

text \<open>1970-01-01 was a Thursday, day 4 of a week that starts on Sunday.\<close>

definition dayOfWeek :: "int \<Rightarrow> nat" where
  "dayOfWeek n = nat ((n + 4) mod 7)"

definition dayOfMonth :: "int \<Rightarrow> int" where
  "dayOfMonth n = snd (snd (civil_from_days n))"

text \<open>The getters; \<open>None\<close> is \<^verbatim>\<open>NaN\<close>.\<close>

definition getDay :: "jsdate \<Rightarrow> nat option" where
  "getDay d = (case d of InvalidDate \<Rightarrow> None | ValidDate n ms \<Rightarrow> Some (dayOfWeek n))"

definition getDate :: "jsdate \<Rightarrow> int option" where
  "getDate d = (case d of InvalidDate \<Rightarrow> None | ValidDate n ms \<Rightarrow> Some (dayOfMonth n))"

definition getMonth :: "jsdate \<Rightarrow> int option" where
  "getMonth d =
     (case d of InvalidDate \<Rightarrow> None | ValidDate n ms \<Rightarrow> Some (fst (snd (civil_from_days n)) - 1))"

definition getFullYear :: "jsdate \<Rightarrow> int option" where
  "getFullYear d =
     (case d of InvalidDate \<Rightarrow> None | ValidDate n ms \<Rightarrow> Some (fst (civil_from_days n)))"

text \<open>
  \<^verbatim>\<open>d.setDate(dt)\<close>: the day \<open>dt\<close> of the month of \<open>d\<close>, counted from the first of that
  month also when \<open>dt\<close> is less than 1 or past the month's end, at the same time of day. The
  first of the month of day \<open>n\<close> is day \<open>n - dayOfMonth n + 1\<close>. The argument is a number,
  \<open>None\<close> when it is \<^verbatim>\<open>NaN\<close>. Local time is taken without clock changes: where the
  clocks are put forward on the target day and the time of day does not exist there, an
  engine moves the time of day, and the day is the same.
\<close>

definition setDate :: "jsdate \<Rightarrow> int option \<Rightarrow> jsdate" where
  "setDate d dt = (case (d, dt) of
       (ValidDate n ms, Some k) \<Rightarrow> ValidDate (n - dayOfMonth n + k) ms
     | _ \<Rightarrow> InvalidDate)"

text \<open>\<^verbatim>\<open>d.setHours(h, m, s, ms)\<close> with each argument inside its range.\<close>

definition setHours :: "jsdate \<Rightarrow> int \<Rightarrow> int \<Rightarrow> int \<Rightarrow> int \<Rightarrow> jsdate" where
  "setHours d h m s ms = (case d of
       InvalidDate \<Rightarrow> InvalidDate
     | ValidDate n t \<Rightarrow> ValidDate n (((h * 60 + m) * 60 + s) * 1000 + ms))"

text \<open>
  \<^verbatim>\<open>new Date(year, monthIndex, dt)\<close> on numbers, midnight of that day: a month index outside
  0..11 carries into the year, and a year of 0..99 means 1900 + year.
\<close>

definition newDateYMD :: "int \<Rightarrow> int \<Rightarrow> int \<Rightarrow> jsdate" where
  "newDateYMD year monthIndex dt =
     (let y = (if 0 \<le> year \<and> year \<le> 99 then 1900 + year else year)
      in ValidDate (days_from_civil (y + monthIndex div 12) (monthIndex mod 12 + 1) 1 + dt - 1) 0)"

text \<open>
  \<^verbatim>\<open>new Date(s)\<close> on a string is the platform's parser, and the functions below take it as
  the parameter \<open>newDate\<close>. The examples use this instance of it, which knows the timestamps
  they mention and finds every other string invalid.
\<close>

definition sampleDate :: "string \<Rightarrow> jsdate" where
  "sampleDate s =
     (case map_of
        [(''2024-02-29T09:00:00'', setHours (newDateYMD 2024 1 29) 9 0 0 0),
         (''2024-03-05T18:30:00'', setHours (newDateYMD 2024 2 5) 18 30 0 0),
         (''2024-03-10T08:00:00'', setHours (newDateYMD 2024 2 10) 8 0 0 0),
         (''2024-03-31T00:00:00'', newDateYMD 2024 2 31),
         (''2025-07-05T12:00:00'', setHours (newDateYMD 2025 6 5) 12 0 0 0)] s of
        Some d \<Rightarrow> d
      | None \<Rightarrow> InvalidDate)"

definition sampleEvent :: "string \<Rightarrow> string \<Rightarrow> string \<Rightarrow> CalendarEvent" where
  "sampleEvent i s t =
     \<lparr>event_id = i, summary = s, description = None, start_time = t, end_time = t,
      location = None, attendees = None, calendar_id = None\<rparr>"

lemma sampleDate_leap_day:
  "sampleDate ''2024-02-29T09:00:00'' = ValidDate 19782 32400000
   \<and> getDay (sampleDate ''2024-02-29T09:00:00'') = Some 4
   \<and> getDate (sampleDate ''2024-02-29T09:00:00'') = Some 29
   \<and> getMonth (sampleDate ''2024-02-29T09:00:00'') = Some 1
   \<and> getFullYear (sampleDate ''2024-02-29T09:00:00'') = Some 2024"
  by code_simp

lemma dayOfWeek_less: "dayOfWeek n < 7"
  by (simp add: dayOfWeek_def nat_less_iff)

lemma getDay_valid: "d \<noteq> InvalidDate \<Longrightarrow> \<exists>k<7. getDay d = Some k"
  by (cases d) (simp_all add: getDay_def dayOfWeek_less)

section \<open>Grouping the week's events by day\<close>

definition days :: "string list" where
  "days = [''Sunday'', ''Monday'', ''Tuesday'', ''Wednesday'', ''Thursday'', ''Friday'', ''Saturday'']"

text \<open>\<^verbatim>\<open>Record<string, CalendarEvent[]>\<close>: an object from property names to arrays.\<close>

type_synonym grouped = "string \<Rightarrow> CalendarEvent list option"

text \<open>
  The second \<^verbatim>\<open>forEach\<close> of \<^verbatim>\<open>groupEventsByDay\<close> (WeekView.tsx). For an invalid date
  \<^verbatim>\<open>getDay()\<close> is \<^verbatim>\<open>NaN\<close>, \<^verbatim>\<open>days[NaN]\<close> is \<^verbatim>\<open>undefined\<close>, the object has no such property, and
  \<^verbatim>\<open>.push\<close> on \<^verbatim>\<open>undefined\<close> throws a TypeError.
\<close>

fun pushEvents :: "(string \<Rightarrow> jsdate) \<Rightarrow> CalendarEvent list \<Rightarrow> grouped \<Rightarrow> js_error + grouped" where
  "pushEvents newDate [] g = Inr g"
| "pushEvents newDate (event # rest) g =
     (case getDay (newDate (start_time event)) of
        None \<Rightarrow> Inl TypeError
      | Some k \<Rightarrow>
          (case g (days ! k) of
             None \<Rightarrow> Inl TypeError
           | Some bucket \<Rightarrow> pushEvents newDate rest (g(days ! k \<mapsto> bucket @ [event]))))"

definition groupEventsByDay :: "(string \<Rightarrow> jsdate) \<Rightarrow> CalendarEvent list \<Rightarrow> js_error + grouped" where
  "groupEventsByDay newDate events =
     pushEvents newDate events (fold (\<lambda>day g. g(day \<mapsto> [])) days Map.empty)"

text \<open>How the view reads a bucket: \<^verbatim>\<open>eventsByDay[day]\<close>, nothing when the key is absent.\<close>

definition eventsOfDay :: "grouped \<Rightarrow> string \<Rightarrow> CalendarEvent list" where
  "eventsOfDay g day = (case g day of None \<Rightarrow> [] | Some b \<Rightarrow> b)"

definition weekSample :: "CalendarEvent list" where
  "weekSample =
     [sampleEvent ''a'' ''Work review'' ''2024-02-29T09:00:00'',
      sampleEvent ''b'' ''Kids football'' ''2024-03-05T18:30:00'',
      sampleEvent ''c'' ''Brunch'' ''2024-03-10T08:00:00'',
      sampleEvent ''d'' ''Work offsite'' ''2025-07-05T12:00:00'']"

lemma distinct_days: "distinct days"
  by (simp add: days_def)

lemma length_days: "length days = 7"
  by (simp add: days_def)

lemma days_nth_eq: "j < 7 \<Longrightarrow> k < 7 \<Longrightarrow> (days ! j = days ! k) = (j = k)"
  using distinct_days length_days by (simp add: nth_eq_iff_index_eq)

lemma fold_empty_buckets:
  "fold (\<lambda>day g. g(day \<mapsto> [])) ds g0 x = (if x \<in> set ds then Some [] else g0 x)"
  by (induction ds arbitrary: g0) auto

lemma pushEvents_valid:
  "(\<forall>e \<in> set es. newDate (start_time e) \<noteq> InvalidDate) \<Longrightarrow> dom g = set days \<Longrightarrow>
   \<exists>g'. pushEvents newDate es g = Inr g' \<and> dom g' = set days \<and>
     (\<forall>k<7. eventsOfDay g' (days ! k) =
        eventsOfDay g (days ! k) @ filter (\<lambda>e. getDay (newDate (start_time e)) = Some k) es)"
proof (induction es arbitrary: g)
  case Nil
  then show ?case by simp
next
  case (Cons e es)
  from Cons.prems(1) obtain k where k: "k < 7" "getDay (newDate (start_time e)) = Some k"
    using getDay_valid by fastforce
  from k(1) have "days ! k \<in> set days"
    by (simp add: length_days)
  with Cons.prems(2) obtain b where b: "g (days ! k) = Some b"
    by blast
  let ?g1 = "g(days ! k \<mapsto> b @ [e])"
  have dom1: "dom ?g1 = set days"
    using Cons.prems(2) \<open>days ! k \<in> set days\<close> by auto
  from Cons.prems(1) have rest: "\<forall>e \<in> set es. newDate (start_time e) \<noteq> InvalidDate"
    by simp
  from Cons.IH [OF rest dom1] obtain g' where g':
    "pushEvents newDate es ?g1 = Inr g'" "dom g' = set days"
    "\<forall>j<7. eventsOfDay g' (days ! j) =
        eventsOfDay ?g1 (days ! j) @ filter (\<lambda>e. getDay (newDate (start_time e)) = Some j) es"
    by blast
  have "eventsOfDay g' (days ! j) =
        eventsOfDay g (days ! j) @ filter (\<lambda>e. getDay (newDate (start_time e)) = Some j) (e # es)"
    if j: "j < 7" for j
  proof (cases "j = k")
    case True
    with g'(3) j b k(2) show ?thesis by (simp add: eventsOfDay_def)
  next
    case False
    with j k(1) have "days ! j \<noteq> days ! k" by (simp add: days_nth_eq)
    with g'(3) j k(2) False show ?thesis by (simp add: eventsOfDay_def)
  qed
  with g'(1,2) k(2) b show ?case by simp
qed


lemma filter_count_one:
  "(\<forall>e \<in> set es. \<exists>k<n. f e = Some k) \<Longrightarrow>
   sum_list (map (\<lambda>k. length (filter (\<lambda>e. f e = Some k) es)) [0..<n]) = length es"
proof (induction es)
  case Nil
  then show ?case by simp
next
  case (Cons e es)
  then obtain k0 where k0: "k0 < n" "f e = Some k0" by auto
  have one: "sum_list (map (\<lambda>k. if k0 = k then 1 else 0) [0..<n]) = (1::nat)"
    using k0(1) by (simp add: interv_sum_list_conv_sum_set_nat)
  have "sum_list (map (\<lambda>k. length (filter (\<lambda>e. f e = Some k) (e # es))) [0..<n])
      = sum_list (map (\<lambda>k. (if k0 = k then 1 else 0) + length (filter (\<lambda>e. f e = Some k) es)) [0..<n])"
    using k0(2) by (intro arg_cong [where f = sum_list] map_cong) auto
  also have "\<dots> = 1 + length es"
    using Cons one by (simp add: sum_list_addf)
  finally show ?case by simp
qed

lemma weekSample_valid: "\<forall>e \<in> set weekSample. sampleDate (start_time e) \<noteq> InvalidDate"
  by code_simp

text \<open>
  Claim C9, as amended. For every input list in which the \<open>start_time\<close> of every event
  parses to a valid date, \<open>groupEventsByDay\<close> returns a record with exactly the seven keys
  Sunday to Saturday; the bucket of each day holds, in input order, the events whose
  \<open>start_time\<close> falls on that day of the week, so every event is in the bucket of its day
  and in no other, and the bucket sizes add up to the length of the input.
\<close>

theorem groupEventsByDay_valid_dates:
  assumes "\<forall>e \<in> set events. newDate (start_time e) \<noteq> InvalidDate"
  shows "\<exists>g. groupEventsByDay newDate events = Inr g
     \<and> dom g = set days
     \<and> (\<forall>k<7. eventsOfDay g (days ! k) =
           filter (\<lambda>e. getDay (newDate (start_time e)) = Some k) events)
     \<and> (\<forall>e \<in> set events. \<forall>k<7.
           (e \<in> set (eventsOfDay g (days ! k))) = (getDay (newDate (start_time e)) = Some k))
     \<and> sum_list (map (\<lambda>day. length (eventsOfDay g day)) days) = length events"
proof -
  let ?g0 = "fold (\<lambda>day g. g(day \<mapsto> [])) days Map.empty"
  have dom0: "dom ?g0 = set days"
    by (auto simp add: fold_empty_buckets dom_def)
  have empty0: "eventsOfDay ?g0 (days ! k) = []" if "k < 7" for k
    using that by (simp add: eventsOfDay_def fold_empty_buckets length_days)
  from pushEvents_valid [OF assms dom0] obtain g where g:
    "groupEventsByDay newDate events = Inr g" "dom g = set days"
    "\<forall>k<7. eventsOfDay g (days ! k) =
        eventsOfDay ?g0 (days ! k) @ filter (\<lambda>e. getDay (newDate (start_time e)) = Some k) events"
    unfolding groupEventsByDay_def by blast
  from g(3) empty0 have buckets:
    "\<forall>k<7. eventsOfDay g (days ! k) = filter (\<lambda>e. getDay (newDate (start_time e)) = Some k) events"
    by simp
  have "map (\<lambda>day. length (eventsOfDay g day)) (map ((!) days) [0..<length days])
      = map (\<lambda>k. length (eventsOfDay g (days ! k))) [0..<length days]"
    by (simp only: map_map o_def)
  then have "map (\<lambda>day. length (eventsOfDay g day)) days
      = map (\<lambda>k. length (eventsOfDay g (days ! k))) [0..<length days]"
    by (simp only: map_nth)
  then have "map (\<lambda>day. length (eventsOfDay g day)) days
      = map (\<lambda>k. length (eventsOfDay g (days ! k))) [0..<7]"
    by (simp only: length_days)
  also have "\<dots> = map (\<lambda>k. length (filter (\<lambda>e. getDay (newDate (start_time e)) = Some k) events)) [0..<7]"
    using buckets by simp
  finally have idx: "map (\<lambda>day. length (eventsOfDay g day)) days
      = map (\<lambda>k. length (filter (\<lambda>e. getDay (newDate (start_time e)) = Some k) events)) [0..<7]" .
  have "\<forall>e \<in> set events. \<exists>k<7. getDay (newDate (start_time e)) = Some k"
    using assms getDay_valid by blast
  from filter_count_one [OF this]
  have total: "sum_list (map (\<lambda>day. length (eventsOfDay g day)) days) = length events"
    by (simp only: idx)
  from g(1,2) buckets total show ?thesis by simp
qed

theorem groupEventsByDay_valid_dates_witness:
  "\<exists>g. groupEventsByDay sampleDate weekSample = Inr g
     \<and> dom g = set days
     \<and> (\<forall>k<7. eventsOfDay g (days ! k) =
           filter (\<lambda>e. getDay (sampleDate (start_time e)) = Some k) weekSample)
     \<and> (\<forall>e \<in> set weekSample. \<forall>k<7.
           (e \<in> set (eventsOfDay g (days ! k))) = (getDay (sampleDate (start_time e)) = Some k))
     \<and> sum_list (map (\<lambda>day. length (eventsOfDay g day)) days) = length weekSample"
  using groupEventsByDay_valid_dates [OF weekSample_valid] .

text \<open>
  The claim as it was stated, that the function always returns such a record, fails on an
  event whose \<open>start_time\<close> is not a date: the call throws.
\<close>

theorem groupEventsByDay_invalid_date_throws:
  "groupEventsByDay sampleDate [sampleEvent ''x'' ''Dentist'' ''sometime next week''] = Inl TypeError"
  by (simp add: groupEventsByDay_def sampleEvent_def sampleDate_def getDay_def)

section \<open>The month grid\<close>

text \<open>
  The cells \<^verbatim>\<open>{ type: 'header', value }\<close>, \<^verbatim>\<open>{ type: 'empty', value: '' }\<close> and
  \<^verbatim>\<open>{ type: 'day', value, events }\<close> that \<^verbatim>\<open>generateCalendarDays\<close> of MonthView.tsx pushes.
\<close>

datatype calendarCell =
    HeaderCell string
  | EmptyCell
  | DayCell nat "CalendarEvent list"

definition dayNames :: "string list" where
  "dayNames = [''Sun'', ''Mon'', ''Tue'', ''Wed'', ''Thu'', ''Fri'', ''Sat'']"

text \<open>
  The two numbers the component computes from \<^verbatim>\<open>currentDate\<close> (the start of the month range
  when one is set, else now): \<^verbatim>\<open>new Date(currentYear, currentMonth + 1, 0).getDate()\<close> and
  \<^verbatim>\<open>new Date(currentYear, currentMonth, 1).getDay()\<close>. Both are \<^verbatim>\<open>NaN\<close> for an invalid date.
\<close>

definition daysInMonth :: "jsdate \<Rightarrow> int option" where
  "daysInMonth currentDate =
     (case (getFullYear currentDate, getMonth currentDate) of
        (Some currentYear, Some currentMonth) \<Rightarrow> getDate (newDateYMD currentYear (currentMonth + 1) 0)
      | _ \<Rightarrow> None)"

definition firstDayOfMonth :: "jsdate \<Rightarrow> nat option" where
  "firstDayOfMonth currentDate =
     (case (getFullYear currentDate, getMonth currentDate) of
        (Some currentYear, Some currentMonth) \<Rightarrow> getDay (newDateYMD currentYear currentMonth 1)
      | _ \<Rightarrow> None)"

text \<open>
  The two \<^verbatim>\<open>for\<close> loops: \<^verbatim>\<open>for (let i = 0; i < firstDayOfMonth; i++)\<close> and
  \<^verbatim>\<open>for (let day = 1; day <= daysInMonth; day++)\<close>, each pushing one cell per round.
\<close>

function emptyLoop :: "nat \<Rightarrow> nat \<Rightarrow> calendarCell list \<Rightarrow> calendarCell list" where
  "emptyLoop i firstDay cells =
     (if i < firstDay then emptyLoop (i + 1) firstDay (cells @ [EmptyCell]) else cells)"
  by pat_completeness auto
termination
  by (relation "measure (\<lambda>(i, firstDay, cells). firstDay - i)") auto

function dayLoop ::
  "(string \<Rightarrow> jsdate) \<Rightarrow> CalendarEvent list \<Rightarrow> nat \<Rightarrow> int \<Rightarrow> calendarCell list \<Rightarrow> calendarCell list" where
  "dayLoop newDate monthEvents day lastDay cells =
     (if int day \<le> lastDay
      then dayLoop newDate monthEvents (day + 1) lastDay
             (cells @ [DayCell day
                (filter (\<lambda>event. getDate (newDate (start_time event)) = Some (int day)) monthEvents)])
      else cells)"
  by pat_completeness auto
termination
  by (relation "measure (\<lambda>(newDate, monthEvents, day, lastDay, cells). nat (lastDay + 1 - int day))") auto

declare emptyLoop.simps [simp del]
declare dayLoop.simps [simp del]

text \<open>
  \<^verbatim>\<open>generateCalendarDays\<close>, with the values it closes over as arguments: the two numbers
  (\<open>None\<close> is \<^verbatim>\<open>NaN\<close>, for which a loop condition is false at once; the getters give whole
  numbers from 0, and 1, on) and the fetched events.
\<close>

definition generateCalendarDays ::
  "(string \<Rightarrow> jsdate) \<Rightarrow> nat option \<Rightarrow> int option \<Rightarrow> CalendarEvent list \<Rightarrow> calendarCell list" where
  "generateCalendarDays newDate firstDay lastDay monthEvents =
     (let cells0 = fold (\<lambda>day cells. cells @ [HeaderCell day]) dayNames [];
          cells1 = (case firstDay of None \<Rightarrow> cells0 | Some f \<Rightarrow> emptyLoop 0 f cells0)
      in (case lastDay of None \<Rightarrow> cells1 | Some n \<Rightarrow> dayLoop newDate monthEvents 1 n cells1))"

definition dayCell :: "(string \<Rightarrow> jsdate) \<Rightarrow> CalendarEvent list \<Rightarrow> nat \<Rightarrow> calendarCell" where
  "dayCell newDate monthEvents day =
     DayCell day (filter (\<lambda>event. getDate (newDate (start_time event)) = Some (int day)) monthEvents)"

definition monthSample :: "CalendarEvent list" where
  "monthSample =
     [sampleEvent ''a'' ''Work review'' ''2024-02-29T09:00:00'',
      sampleEvent ''b'' ''Kids football'' ''2024-03-05T18:30:00'',
      sampleEvent ''d'' ''Work offsite'' ''2025-07-05T12:00:00'',
      sampleEvent ''x'' ''Dentist'' ''sometime next week'']"

lemma emptyLoop_replicate: "emptyLoop i f cells = cells @ replicate (f - i) EmptyCell"
proof (induction i f cells rule: emptyLoop.induct)
  case (1 i f cells)
  show ?case
  proof (cases "i < f")
    case True
    then have "f - i = Suc (f - (i + 1))" by simp
    with 1 True show ?thesis
      by (simp add: emptyLoop.simps [of i])
  next
    case False
    then show ?thesis by (simp add: emptyLoop.simps [of i])
  qed
qed

lemma dayLoop_map:
  "dayLoop newDate evs day n cells = cells @ map (dayCell newDate evs) [day..<nat (n + 1)]"
proof (induction newDate evs day n cells rule: dayLoop.induct)
  case (1 newDate evs day n cells)
  show ?case
  proof (cases "int day \<le> n")
    case True
    then have "[day..<nat (n + 1)] = day # [day + 1..<nat (n + 1)]"
      by (simp add: upt_conv_Cons)
    with 1 True show ?thesis
      by (simp add: dayLoop.simps [of newDate evs day] dayCell_def)
  next
    case False
    then show ?thesis by (simp add: dayLoop.simps [of newDate evs day])
  qed
qed

lemma header_fold: "fold (\<lambda>day cells. cells @ [HeaderCell day]) ds cells0 = cells0 @ map HeaderCell ds"
  by (induction ds arbitrary: cells0) auto

lemma generateCalendarDays_invalid_month:
  "generateCalendarDays newDate None None monthEvents = map HeaderCell dayNames"
  by (simp add: generateCalendarDays_def header_fold)

lemma february_2024:
  "daysInMonth (sampleDate ''2024-02-29T09:00:00'') = Some 29
   \<and> firstDayOfMonth (sampleDate ''2024-02-29T09:00:00'') = Some 4"
  by code_simp

text \<open>
  Claim C10. \<open>generateCalendarDays\<close> of the Month view returns exactly
  \<open>7 + firstDayOfMonth + daysInMonth\<close> cells: the seven weekday headers, then
  \<open>firstDayOfMonth\<close> empty cells, then one day cell for each day number from 1 to
  \<open>daysInMonth\<close> in order; the events of a day cell are the fetched events whose
  \<open>start_time\<close> has that day of the month, whatever their month and year.
\<close>

theorem generateCalendarDays_cells:
  "generateCalendarDays newDate (Some firstDay) (Some (int lastDay)) monthEvents =
     map HeaderCell dayNames @ replicate firstDay EmptyCell
       @ map (\<lambda>day. DayCell day
           (filter (\<lambda>event. getDate (newDate (start_time event)) = Some (int day)) monthEvents))
           [1..<Suc lastDay]
   \<and> length (generateCalendarDays newDate (Some firstDay) (Some (int lastDay)) monthEvents) =
       7 + firstDay + lastDay"
proof -
  have "nat (int lastDay + 1) = Suc lastDay"
    by simp
  then show ?thesis
    by (simp add: generateCalendarDays_def header_fold emptyLoop_replicate dayLoop_map dayCell_def
        dayNames_def del: of_nat_Suc)
qed

text \<open>
  The grid of February 2024 (29 days, the first a Thursday) over four events: the cell of
  day 5 is at index \<open>7 + 4 + 4\<close> and holds the event of 5 March 2024 and the one of
  5 July 2025; the event without a parseable date is in no cell.
\<close>

theorem generateCalendarDays_cells_witness:
  "length (generateCalendarDays sampleDate (Some 4) (Some 29) monthSample) = 7 + 4 + 29
   \<and> generateCalendarDays sampleDate (Some 4) (Some 29) monthSample ! 15 =
       DayCell 5 [sampleEvent ''b'' ''Kids football'' ''2024-03-05T18:30:00'',
                  sampleEvent ''d'' ''Work offsite'' ''2025-07-05T12:00:00'']"
proof -
  have day5: "filter (\<lambda>event. getDate (sampleDate (start_time event)) = Some 5) monthSample =
      [sampleEvent ''b'' ''Kids football'' ''2024-03-05T18:30:00'',
       sampleEvent ''d'' ''Work offsite'' ''2025-07-05T12:00:00'']"
    by code_simp
  have cells: "generateCalendarDays sampleDate (Some 4) (Some 29) monthSample =
       (map HeaderCell dayNames @ replicate 4 EmptyCell)
       @ map (\<lambda>day. DayCell day
           (filter (\<lambda>event. getDate (sampleDate (start_time event)) = Some (int day)) monthSample))
           [1..<Suc 29]"
    using generateCalendarDays_cells [of sampleDate 4 29 monthSample] by simp
  have len: "length (map HeaderCell dayNames @ replicate 4 EmptyCell) = 11"
    by (simp add: dayNames_def)
  have "generateCalendarDays sampleDate (Some 4) (Some 29) monthSample ! 15 =
      DayCell 5 (filter (\<lambda>event. getDate (sampleDate (start_time event)) = Some 5) monthSample)"
    unfolding cells by (simp only: nth_append len) simp
  with day5 generateCalendarDays_cells [of sampleDate 4 29 monthSample] show ?thesis
    by (simp add: dayNames_def)
qed

section \<open>Extracting a date from text\<close>

text \<open>
  Strings are lists of characters. \<^verbatim>\<open>toLowerCase\<close> is written for the letters A to Z; every
  other character is left as it is.
\<close>

definition lowerChar :: "char \<Rightarrow> char" where
  "lowerChar c =
     (case map_of (zip ''ABCDEFGHIJKLMNOPQRSTUVWXYZ'' ''abcdefghijklmnopqrstuvwxyz'') c of
        Some l \<Rightarrow> l
      | None \<Rightarrow> c)"

definition toLowerCase :: "string \<Rightarrow> string" where
  "toLowerCase s = map lowerChar s"

text \<open>
  \<^verbatim>\<open>s.includes(p)\<close>, and also \<^verbatim>\<open>new RegExp(p).test(s)\<close> for a pattern of literal characters:
  \<open>p\<close> occurs somewhere in \<open>s\<close>.
\<close>

fun includes_str :: "string \<Rightarrow> string \<Rightarrow> bool" where
  "includes_str [] p = (p = [])"
| "includes_str (c # cs) p = (prefix p (c # cs) \<or> includes_str cs p)"

definition weekdays :: "string list" where
  "weekdays = [''sunday'', ''monday'', ''tuesday'', ''wednesday'', ''thursday'', ''friday'', ''saturday'']"

text \<open>
  The two patterns of the loop. \<^verbatim>\<open>new RegExp(`next ${wd}`)\<close> is the literal text. In
  \<^verbatim>\<open>new RegExp(`\b${wd}\b`)\<close> the escape \<^verbatim>\<open>\b\<close> stands inside a template literal, where it
  is the backspace character U+0008, so this pattern asks for the weekday between two
  backspace characters.
\<close>

definition backspace :: char where
  "backspace = CHR 0x08"

definition nextPattern :: "string \<Rightarrow> string" where
  "nextPattern wd = ''next '' @ wd"

definition thisPattern :: "string \<Rightarrow> string" where
  "thisPattern wd = [backspace] @ wd @ [backspace]"

text \<open>\<^verbatim>\<open>d.setDate(d.getDate() + daysToAdd)\<close>.\<close>

definition addDays :: "jsdate \<Rightarrow> int \<Rightarrow> jsdate" where
  "addDays d daysToAdd = setDate d (map_option (\<lambda>dt. dt + daysToAdd) (getDate d))"

text \<open>
  The loop over the weekdays, from index \<open>i\<close>: \<open>Some d\<close> when a round returns the date \<open>d\<close>,
  \<open>None\<close> when the loop ends without returning. Both remainders are taken of positive
  numbers, where \<^verbatim>\<open>%\<close> is \<open>mod\<close>.
\<close>

fun weekdayLoop :: "jsdate \<Rightarrow> string \<Rightarrow> nat \<Rightarrow> string list \<Rightarrow> jsdate option" where
  "weekdayLoop today lower i [] = None"
| "weekdayLoop today lower i (wd # rest) =
     (if includes_str lower (nextPattern wd) then
        (case getDay today of
           None \<Rightarrow> Some InvalidDate
         | Some dow \<Rightarrow> Some (addDays today ((7 - int dow + int i) mod 7 + 7)))
      else if includes_str lower (thisPattern wd) then
        (case getDay today of
           None \<Rightarrow> Some InvalidDate
         | Some dow \<Rightarrow>
             (let daysToAdd = (int i - int dow + 7) mod 7
              in Some (addDays today (if daysToAdd = 0 then 7 else daysToAdd))))
      else weekdayLoop today lower (i + 1) rest)"

text \<open>A number as \<^verbatim>\<open>' ' + today.getFullYear()\<close> prints it.\<close>

function showNat :: "nat \<Rightarrow> string" where
  "showNat n = (if n < 10 then [''0123456789'' ! n] else showNat (n div 10) @ [''0123456789'' ! (n mod 10)])"
  by pat_completeness auto
termination
  by (relation "measure id") auto

declare showNat.simps [simp del]

definition showInt :: "int \<Rightarrow> string" where
  "showInt k = (if k < 0 then CHR ''-'' # showNat (nat (- k)) else showNat (nat k))"

text \<open>
  \<^verbatim>\<open>extractDateFromText\<close> of useConversationalVoice.ts. \<open>today\<close> is \<^verbatim>\<open>new Date()\<close>, the result
  \<open>None\<close> is \<^verbatim>\<open>null\<close>. The last step rests on the platform: \<open>matchDate\<close> is
  \<^verbatim>\<open>text.match(dateRegex)\<close> (the matched text, if any) and \<open>dateParse\<close> is \<^verbatim>\<open>Date.parse\<close>
  followed by \<^verbatim>\<open>new Date\<close> (invalid for \<^verbatim>\<open>NaN\<close>).
\<close>

definition extractDateFromText ::
  "(string \<Rightarrow> string option) \<Rightarrow> (string \<Rightarrow> jsdate) \<Rightarrow> jsdate \<Rightarrow> string \<Rightarrow> jsdate option" where
  "extractDateFromText matchDate dateParse today text =
     (let lower = toLowerCase text in
      if includes_str lower ''today'' then Some today
      else if includes_str lower ''tomorrow'' then Some (addDays today 1)
      else if includes_str lower ''yesterday'' then Some (addDays today (- 1))
      else
        (case weekdayLoop today lower 0 weekdays of
           Some d \<Rightarrow> Some d
         | None \<Rightarrow>
             (case matchDate text of
                None \<Rightarrow> None
              | Some dateStr \<Rightarrow>
                  (case dateParse dateStr of
                     ValidDate n ms \<Rightarrow> Some (ValidDate n ms)
                   | InvalidDate \<Rightarrow>
                       (case dateParse (dateStr @ '' '' @
                               (case getFullYear today of None \<Rightarrow> ''NaN'' | Some y \<Rightarrow> showInt y)) of
                          ValidDate n ms \<Rightarrow> Some (ValidDate n ms)
                        | InvalidDate \<Rightarrow> None)))))"

text \<open>For the examples: a text in which the date pattern matches nothing.\<close>

definition noDateMatch :: "string \<Rightarrow> string option" where
  "noDateMatch text = None"

text \<open>Monday 2 November 2026, ten in the morning, is day 20759.\<close>

lemma monday_2_november_2026:
  "setHours (newDateYMD 2026 10 2) 10 0 0 0 = ValidDate 20759 36000000
   \<and> getDay (ValidDate 20759 36000000) = Some 1"
  by code_simp

lemma addDays_valid: "addDays (ValidDate n ms) k = ValidDate (n + k) ms"
  by (simp add: addDays_def setDate_def getDate_def)

lemma weekdayLoop_first:
  "i < length wds \<Longrightarrow> includes_str lower (nextPattern (wds ! i)) \<Longrightarrow>
   (\<forall>j<i. \<not> includes_str lower (nextPattern (wds ! j)) \<and> \<not> includes_str lower (thisPattern (wds ! j))) \<Longrightarrow>
   weekdayLoop (ValidDate n ms) lower k wds =
     Some (ValidDate (n + ((7 - int (dayOfWeek n) + int (k + i)) mod 7 + 7)) ms)"
proof (induction wds arbitrary: i k)
  case Nil
  then show ?case by simp
next
  case (Cons wd rest)
  show ?case
  proof (cases i)
    case 0
    with Cons.prems show ?thesis
      by (simp add: getDay_def addDays_valid)
  next
    case (Suc i')
    from Cons.prems(3) Suc have head: "\<not> includes_str lower (nextPattern wd)"
      "\<not> includes_str lower (thisPattern wd)"
      by auto
    have "weekdayLoop (ValidDate n ms) lower (k + 1) rest =
        Some (ValidDate (n + ((7 - int (dayOfWeek n) + int ((k + 1) + i')) mod 7 + 7)) ms)"
    proof (rule Cons.IH)
      show "i' < length rest" using Cons.prems(1) Suc by simp
      show "includes_str lower (nextPattern (rest ! i'))" using Cons.prems(2) Suc by simp
      show "\<forall>j<i'. \<not> includes_str lower (nextPattern (rest ! j)) \<and> \<not> includes_str lower (thisPattern (rest ! j))"
        using Cons.prems(3) Suc by auto
    qed
    with head Suc show ?thesis by simp
  qed
qed

lemma next_weekday_arith:
  "i < 7 \<Longrightarrow> dayOfWeek (n + ((7 - int (dayOfWeek n) + int i) mod 7 + 7)) = i"
proof -
  assume i: "i < 7"
  define a where "a = (n + 4) mod 7"
  define x where "x = (7 - a + int i) mod 7"
  have dow: "int (dayOfWeek n) = a"
    by (simp add: dayOfWeek_def a_def)
  have e: "n + (x + 7) + 4 = (n + 4) + x + 7"
    by simp
  have "(n + (x + 7) + 4) mod 7 = ((n + 4) + x + 7) mod 7"
    by (simp only: e)
  also have "\<dots> = ((n + 4) + x) mod 7"
    by (rule mod_add_self2)
  also have "\<dots> = (a + x) mod 7"
    unfolding a_def by (rule mod_add_left_eq [symmetric])
  also have "\<dots> = (a + (7 - a + int i)) mod 7"
    unfolding x_def by (rule mod_add_right_eq)
  also have "\<dots> = int i"
    using i by simp
  finally have "(n + (x + 7) + 4) mod 7 = int i" .
  then show ?thesis
    by (simp add: dayOfWeek_def x_def a_def)
qed

lemma next_weekday_range:
  "7 \<le> (7 - int (dayOfWeek n) + int i) mod 7 + 7 \<and> (7 - int (dayOfWeek n) + int i) mod 7 + 7 \<le> 13"
proof -
  have "0 \<le> (7 - int (dayOfWeek n) + int i) mod 7" "(7 - int (dayOfWeek n) + int i) mod 7 < 7"
    by simp_all
  then show ?thesis by linarith
qed


text \<open>
  Claim C3, as amended. Let the lower-cased input contain \<open>next w\<close> for a weekday \<open>w\<close> and
  none of \<open>today\<close>, \<open>tomorrow\<close>, \<open>yesterday\<close>, and let no weekday before \<open>w\<close> in the order
  Sunday to Saturday be matched by either pattern of the loop. Then \<open>extractDateFromText\<close>
  returns a date, not null, that falls on the weekday \<open>w\<close> and lies at least 7 and at most
  13 days after the current date.
\<close>

theorem extractDateFromText_next_weekday:
  assumes "i < 7"
    and "includes_str (toLowerCase text) (nextPattern (weekdays ! i))"
    and "\<not> includes_str (toLowerCase text) ''today''"
    and "\<not> includes_str (toLowerCase text) ''tomorrow''"
    and "\<not> includes_str (toLowerCase text) ''yesterday''"
    and "\<forall>j<i. \<not> includes_str (toLowerCase text) (nextPattern (weekdays ! j))
              \<and> \<not> includes_str (toLowerCase text) (thisPattern (weekdays ! j))"
  shows "\<exists>d. extractDateFromText matchDate dateParse (ValidDate n ms) text = Some (ValidDate d ms)
           \<and> dayOfWeek d = i \<and> n + 7 \<le> d \<and> d \<le> n + 13"
proof -
  let ?d = "n + ((7 - int (dayOfWeek n) + int i) mod 7 + 7)"
  have len: "i < length weekdays"
    using assms(1) by (simp add: weekdays_def)
  have "weekdayLoop (ValidDate n ms) (toLowerCase text) 0 weekdays = Some (ValidDate ?d ms)"
    using weekdayLoop_first [OF len assms(2) assms(6), of n ms 0] by simp
  then have "extractDateFromText matchDate dateParse (ValidDate n ms) text = Some (ValidDate ?d ms)"
    using assms(3-5) by (simp add: extractDateFromText_def)
  moreover have "dayOfWeek ?d = i"
    using assms(1) by (rule next_weekday_arith)
  moreover have "n + 7 \<le> ?d \<and> ?d \<le> n + 13"
    using next_weekday_range [of n i] by simp
  ultimately show ?thesis by blast
qed

theorem extractDateFromText_next_weekday_witness:
  "\<exists>d. extractDateFromText noDateMatch sampleDate (ValidDate 20759 36000000)
          ''What is on next Tuesday?'' = Some (ValidDate d 36000000)
       \<and> dayOfWeek d = 2 \<and> 20759 + 7 \<le> d \<and> d \<le> 20759 + 13"
proof -
  let ?low = "toLowerCase ''What is on next Tuesday?''"
  have h0: "\<not> includes_str ?low (nextPattern (weekdays ! 0)) \<and> \<not> includes_str ?low (thisPattern (weekdays ! 0))"
    by code_simp
  have h1: "\<not> includes_str ?low (nextPattern (weekdays ! 1)) \<and> \<not> includes_str ?low (thisPattern (weekdays ! 1))"
    by code_simp
  have earlier: "\<forall>j<2. \<not> includes_str ?low (nextPattern (weekdays ! j))
                      \<and> \<not> includes_str ?low (thisPattern (weekdays ! j))"
  proof (intro allI impI)
    fix j :: nat
    assume "j < 2"
    then have "j = 0 \<or> j = 1" by arith
    with h0 h1 show "\<not> includes_str ?low (nextPattern (weekdays ! j))
                      \<and> \<not> includes_str ?low (thisPattern (weekdays ! j))"
      by blast
  qed
  have a: "(2::nat) < 7" by simp
  have b: "includes_str ?low (nextPattern (weekdays ! 2))" by code_simp
  have c: "\<not> includes_str ?low ''today''" by code_simp
  have d: "\<not> includes_str ?low ''tomorrow''" by code_simp
  have e: "\<not> includes_str ?low ''yesterday''" by code_simp
  from extractDateFromText_next_weekday [OF a b c d e earlier, of noDateMatch sampleDate 20759 36000000]
  show ?thesis .
qed

text \<open>
  The claim as it was stated fails in two ways. With two weekdays in the text the first in
  the order of the loop wins: on Monday 2 November 2026 the text below contains
  \<open>next monday\<close>, and the result is Sunday 15 November. And the three words are looked for
  in the lower-cased text: a text with \<open>TODAY\<close> in capitals does not contain \<open>today\<close>, and
  the result is the current date.
\<close>

theorem extractDateFromText_first_match_wins:
  "includes_str ''move it from next sunday to next monday'' (''next '' @ weekdays ! 1)
   \<and> \<not> includes_str ''move it from next sunday to next monday'' ''today''
   \<and> \<not> includes_str ''move it from next sunday to next monday'' ''tomorrow''
   \<and> \<not> includes_str ''move it from next sunday to next monday'' ''yesterday''
   \<and> extractDateFromText noDateMatch sampleDate (ValidDate 20759 36000000)
        ''move it from next sunday to next monday'' = Some (ValidDate 20772 36000000)
   \<and> dayOfWeek 20772 = 0
   \<and> includes_str ''not TODAY, rather next friday'' (''next '' @ weekdays ! 5)
   \<and> \<not> includes_str ''not TODAY, rather next friday'' ''today''
   \<and> \<not> includes_str ''not TODAY, rather next friday'' ''tomorrow''
   \<and> \<not> includes_str ''not TODAY, rather next friday'' ''yesterday''
   \<and> extractDateFromText noDateMatch sampleDate (ValidDate 20759 36000000)
        ''not TODAY, rather next friday'' = Some (ValidDate 20759 36000000)"
  by code_simp

section \<open>The API client\<close>

text \<open>
  A JSON value, as \<^verbatim>\<open>response.json()\<close> and \<^verbatim>\<open>JSON.parse\<close> return it. The interfaces of
  api.ts are compile-time types only; a method returns whatever value the body holds.
\<close>

datatype json =
    JNull
  | JBool bool
  | JNum int
  | JStr string
  | JArr "json list"
  | JObj "(string \<times> json) list"

text \<open>A \<^verbatim>\<open>Blob\<close>, by its size and its MIME type; the bytes themselves are not needed.\<close>

record blob =
  blob_size :: nat
  blob_type :: string

text \<open>
  What is passed to \<^verbatim>\<open>fetch\<close>: method, URL, headers and body. \<open>req_query\<close> holds the
  \<^verbatim>\<open>URLSearchParams\<close> of \<^verbatim>\<open>getEvents\<close> in the order they were appended (their encoding into
  the URL is the platform's); \<open>JsonBody\<close> is \<^verbatim>\<open>JSON.stringify\<close> of an object of strings.
\<close>

datatype req_body =
    NoBody
  | FormBody "(string \<times> string) list"
  | BlobBody blob
  | JsonBody "(string \<times> string) list"

record request =
  req_method :: string
  req_url :: string
  req_query :: "(string \<times> string) list"
  req_headers :: "(string \<times> string) list"
  req_body :: req_body

text \<open>A \<^verbatim>\<open>Response\<close>: its status, and its body as \<^verbatim>\<open>text()\<close> and as \<^verbatim>\<open>blob()\<close> give it.\<close>

record response =
  status :: nat
  body_text :: string
  body_blob :: blob

definition ok :: "response \<Rightarrow> bool" where
  "ok r = (200 \<le> status r \<and> status r \<le> 299)"

text \<open>
  What the client runs against. \<open>network\<close> answers an HTTP request, and may answer
  differently depending on the requests sent before it (the first argument), so a repeated
  request could get another answer. \<open>fetchLocal\<close> is \<^verbatim>\<open>fetch\<close> on the recording's own URI
  (a file or data URI, which the sources turn into a blob before uploading) and is not an
  HTTP request to the backend. \<open>parseJSON\<close> is the platform's JSON parser (\<open>None\<close>: not
  JSON, a SyntaxError), \<open>toISOString\<close> the platform's printing of a valid date, \<open>now\<close> is
  \<^verbatim>\<open>new Date()\<close>, and \<open>baseUrl\<close> is \<^verbatim>\<open>API_BASE_URL\<close>.
\<close>

record api_env =
  baseUrl :: string
  network :: "request list \<Rightarrow> request \<Rightarrow> response outcome"
  fetchLocal :: "string \<Rightarrow> response outcome"
  parseJSON :: "string \<Rightarrow> json option"
  toISOString :: "int \<Rightarrow> int \<Rightarrow> string"
  now :: jsdate

text \<open>
  An asynchronous method: it takes the list of HTTP requests sent so far and returns how
  its promise settles together with the extended list.
\<close>

type_synonym 'a api = "request list \<Rightarrow> 'a outcome \<times> request list"

definition fetch :: "api_env \<Rightarrow> request \<Rightarrow> response api" where
  "fetch env req log = (network env log req, log @ [req])"

text \<open>\<^verbatim>\<open>await\<close>: a rejection leaves the function at once, as the exception it becomes.\<close>

definition await :: "'a outcome \<times> 's \<Rightarrow> ('a \<Rightarrow> 's \<Rightarrow> 'b outcome \<times> 's) \<Rightarrow> 'b outcome \<times> 's" where
  "await p k = (case fst p of Rejected e \<Rightarrow> (Rejected e, snd p) | Resolved v \<Rightarrow> k v (snd p))"

text \<open>\<^verbatim>\<open>response.json()\<close>, and \<^verbatim>\<open>JSON.parse(responseText)\<close>.\<close>

definition responseJson :: "api_env \<Rightarrow> response \<Rightarrow> json outcome" where
  "responseJson env r =
     (case parseJSON env (body_text r) of None \<Rightarrow> Rejected SyntaxError | Some j \<Rightarrow> Resolved j)"

text \<open>
  \<^verbatim>\<open>data.events || []\<close> of \<^verbatim>\<open>getEvents\<close>: reading a property of \<^verbatim>\<open>null\<close> throws, a value
  that is not an object has no such property, and a falsy value gives way to the empty array.
\<close>

fun truthy :: "json \<Rightarrow> bool" where
  "truthy JNull = False"
| "truthy (JBool b) = b"
| "truthy (JNum n) = (n \<noteq> 0)"
| "truthy (JStr s) = (s \<noteq> [])"
| "truthy (JArr xs) = True"
| "truthy (JObj fs) = True"

definition eventsOrEmpty :: "json \<Rightarrow> json outcome" where
  "eventsOrEmpty data =
     (case data of
        JNull \<Rightarrow> Rejected TypeError
      | JObj props \<Rightarrow>
          (case map_of props ''events'' of
             Some v \<Rightarrow> Resolved (if truthy v then v else JArr [])
           | None \<Rightarrow> Resolved (JArr []))
      | _ \<Rightarrow> Resolved (JArr []))"

text \<open>\<^verbatim>\<open>blob.type || 'audio/mp4'\<close>.\<close>

definition contentType :: "blob \<Rightarrow> string" where
  "contentType b = (if blob_type b = [] then ''audio/mp4'' else blob_type b)"

text \<open>
  \<^verbatim>\<open>audioData: Blob | string\<close> of the two voice-command methods, and its conversion to a blob
  (the third branch of the source is excluded by the type).
\<close>

datatype audio = AudioBlob blob | AudioUri string

definition toBlob :: "api_env \<Rightarrow> audio \<Rightarrow> blob api" where
  "toBlob env audioData log =
     (case audioData of
        AudioBlob b \<Rightarrow> (Resolved b, log)
      | AudioUri uri \<Rightarrow> await (fetchLocal env uri, log) (\<lambda>response log. (Resolved (body_blob response), log)))"

text \<open>The methods of \<^verbatim>\<open>class ApiService\<close>, in the order of the source.\<close>

definition processTextCommand :: "api_env \<Rightarrow> string \<Rightarrow> string option \<Rightarrow> json api" where
  "processTextCommand env message userId log =
     await (fetch env
        \<lparr>req_method = ''POST'', req_url = baseUrl env @ ''/api/text'', req_query = [],
         req_headers = [],
         req_body = FormBody ((''message'', message) #
           (case userId of Some u \<Rightarrow> (if u = [] then [] else [(''user_id'', u)]) | None \<Rightarrow> []))\<rparr> log)
       (\<lambda>response log.
          if \<not> ok response then (Rejected (HttpError (status response) []), log)
          else (responseJson env response, log))"

definition processVoiceCommand :: "api_env \<Rightarrow> audio \<Rightarrow> json api" where
  "processVoiceCommand env audioData log =
     await (toBlob env audioData log)
       (\<lambda>blob log.
          await (fetch env
             \<lparr>req_method = ''POST'', req_url = baseUrl env @ ''/api/voice'', req_query = [],
              req_headers = [(''Content-Type'', contentType blob), (''X-Filename'', ''voice_command.m4a'')],
              req_body = BlobBody blob\<rparr> log)
            (\<lambda>response log.
               if \<not> ok response then (Rejected (HttpError (status response) (body_text response)), log)
               else (responseJson env response, log)))"

text \<open>
  \<^verbatim>\<open>if (startDate) params.append('start_date', startDate.toISOString())\<close>: a Date object
  is truthy also when invalid, and \<^verbatim>\<open>toISOString\<close> of an invalid date throws a RangeError.
\<close>

definition isoParam :: "api_env \<Rightarrow> string \<Rightarrow> jsdate option \<Rightarrow> (string \<times> string) list outcome" where
  "isoParam env key d =
     (case d of
        None \<Rightarrow> Resolved []
      | Some InvalidDate \<Rightarrow> Rejected RangeError
      | Some (ValidDate n ms) \<Rightarrow> Resolved [(key, toISOString env n ms)])"

definition getEvents :: "api_env \<Rightarrow> jsdate option \<Rightarrow> jsdate option \<Rightarrow> int \<Rightarrow> json api" where
  "getEvents env startDate endDate maxResults log =
     await (isoParam env ''start_date'' startDate, log)
       (\<lambda>p1 log. await (isoParam env ''end_date'' endDate, log)
         (\<lambda>p2 log.
            await (fetch env
               \<lparr>req_method = ''GET'', req_url = baseUrl env @ ''/api/events'',
                req_query = p1 @ p2 @ [(''max_results'', showInt maxResults)],
                req_headers = [], req_body = NoBody\<rparr> log)
              (\<lambda>response log.
                 if \<not> ok response then (Rejected (HttpError (status response) []), log)
                 else await (responseJson env response, log) (\<lambda>data log. (eventsOrEmpty data, log)))))"

text \<open>\<^verbatim>\<open>new Date(y, m, d)\<close> on the results of getters, invalid when one of them is \<^verbatim>\<open>NaN\<close>.\<close>

definition newDateParts :: "int option \<Rightarrow> int option \<Rightarrow> int option \<Rightarrow> jsdate" where
  "newDateParts year monthIndex dt =
     (case (year, monthIndex, dt) of
        (Some y, Some m, Some d) \<Rightarrow> newDateYMD y m d
      | _ \<Rightarrow> InvalidDate)"

definition getTodayEvents :: "api_env \<Rightarrow> json api" where
  "getTodayEvents env log =
     (let today = now env;
          startOfDay = newDateParts (getFullYear today) (getMonth today) (getDate today);
          endOfDay = setHours (newDateParts (getFullYear today) (getMonth today) (getDate today)) 23 59 59 999
      in getEvents env (Some startOfDay) (Some endOfDay) 50 log)"

definition getWeekEvents :: "api_env \<Rightarrow> json api" where
  "getWeekEvents env log =
     (let today = now env;
          startOfWeek = setHours
            (setDate today (case (getDate today, getDay today) of
                               (Some dt, Some dow) \<Rightarrow> Some (dt - int dow) | _ \<Rightarrow> None)) 0 0 0 0;
          endOfWeek = setHours (addDays startOfWeek 6) 23 59 59 999
      in getEvents env (Some startOfWeek) (Some endOfWeek) 50 log)"

definition getMonthEvents :: "api_env \<Rightarrow> json api" where
  "getMonthEvents env log =
     (let today = now env;
          startOfMonth = newDateParts (getFullYear today) (getMonth today) (Some 1);
          endOfMonth = setHours
            (newDateParts (getFullYear today) (map_option (\<lambda>m. m + 1) (getMonth today)) (Some 0))
            23 59 59 999
      in getEvents env (Some startOfMonth) (Some endOfMonth) 50 log)"

definition healthCheck :: "api_env \<Rightarrow> json api" where
  "healthCheck env log =
     await (fetch env
        \<lparr>req_method = ''GET'', req_url = baseUrl env @ ''/health'', req_query = [],
         req_headers = [], req_body = NoBody\<rparr> log)
       (\<lambda>response log.
          if \<not> ok response then (Rejected (HttpError (status response) []), log)
          else (responseJson env response, log))"

definition startConversation :: "api_env \<Rightarrow> json api" where
  "startConversation env log =
     await (fetch env
        \<lparr>req_method = ''POST'', req_url = baseUrl env @ ''/api/conversation/start'', req_query = [],
         req_headers = [(''Content-Type'', ''application/json'')], req_body = NoBody\<rparr> log)
       (\<lambda>response log.
          if \<not> ok response then (Rejected (HttpError (status response) []), log)
          else (responseJson env response, log))"

definition sendVoiceMessage :: "api_env \<Rightarrow> blob \<Rightarrow> string \<Rightarrow> string \<Rightarrow> string \<Rightarrow> json api" where
  "sendVoiceMessage env audioData conversationId voice model log =
     await (fetch env
        \<lparr>req_method = ''POST'', req_url = baseUrl env @ ''/api/conversation/voice'', req_query = [],
         req_headers = [(''Content-Type'', contentType audioData), (''X-Conversation-ID'', conversationId),
                        (''X-Filename'', ''voice_message.m4a''), (''X-Voice'', voice), (''X-Model'', model)],
         req_body = BlobBody audioData\<rparr> log)
       (\<lambda>response log.
          if \<not> ok response then (Rejected (HttpError (status response) (body_text response)), log)
          else (responseJson env response, log))"

definition sendTextMessage :: "api_env \<Rightarrow> string \<Rightarrow> string \<Rightarrow> string \<Rightarrow> string \<Rightarrow> json api" where
  "sendTextMessage env conversationId message voice model log =
     await (fetch env
        \<lparr>req_method = ''POST'', req_url = baseUrl env @ ''/api/conversation/text'', req_query = [],
         req_headers = [(''Content-Type'', ''application/json'')],
         req_body = JsonBody [(''conversation_id'', conversationId), (''message'', message),
                              (''voice'', voice), (''model'', model)]\<rparr> log)
       (\<lambda>response log.
          if \<not> ok response then (Rejected (HttpError (status response) []), log)
          else (responseJson env response, log))"

definition register :: "api_env \<Rightarrow> string \<Rightarrow> string \<Rightarrow> json api" where
  "register env email password log =
     await (fetch env
        \<lparr>req_method = ''POST'', req_url = baseUrl env @ ''/api/register'', req_query = [],
         req_headers = [(''Content-Type'', ''application/json'')],
         req_body = JsonBody [(''email'', email), (''password'', password)]\<rparr> log)
       (\<lambda>response log. (responseJson env response, log))"

definition login :: "api_env \<Rightarrow> string \<Rightarrow> string \<Rightarrow> json api" where
  "login env email password log =
     await (fetch env
        \<lparr>req_method = ''POST'', req_url = baseUrl env @ ''/api/login'', req_query = [],
         req_headers = [(''Content-Type'', ''application/json'')],
         req_body = JsonBody [(''email'', email), (''password'', password)]\<rparr> log)
       (\<lambda>response log. (responseJson env response, log))"

definition getChores :: "api_env \<Rightarrow> string \<Rightarrow> string \<Rightarrow> json api" where
  "getChores env date token log =
     await (fetch env
        \<lparr>req_method = ''GET'', req_url = baseUrl env @ ''/api/chores?date='' @ date, req_query = [],
         req_headers = [(''Authorization'', ''Bearer '' @ token)], req_body = NoBody\<rparr> log)
       (\<lambda>response log. (responseJson env response, log))"

definition assignChore :: "api_env \<Rightarrow> string \<Rightarrow> string \<Rightarrow> string \<Rightarrow> json api" where
  "assignChore env chore_id user token log =
     await (fetch env
        \<lparr>req_method = ''POST'', req_url = baseUrl env @ ''/api/chores/assign'', req_query = [],
         req_headers = [(''Content-Type'', ''application/json''), (''Authorization'', ''Bearer '' @ token)],
         req_body = JsonBody [(''chore_id'', chore_id), (''user'', user)]\<rparr> log)
       (\<lambda>response log. (responseJson env response, log))"

definition completeChore :: "api_env \<Rightarrow> string \<Rightarrow> string \<Rightarrow> json api" where
  "completeChore env chore_id token log =
     await (fetch env
        \<lparr>req_method = ''POST'', req_url = baseUrl env @ ''/api/chores/complete'', req_query = [],
         req_headers = [(''Content-Type'', ''application/json''), (''Authorization'', ''Bearer '' @ token)],
         req_body = JsonBody [(''chore_id'', chore_id)]\<rparr> log)
       (\<lambda>response log. (responseJson env response, log))"

definition deleteChore :: "api_env \<Rightarrow> string \<Rightarrow> string \<Rightarrow> json api" where
  "deleteChore env chore_id token log =
     await (fetch env
        \<lparr>req_method = ''POST'', req_url = baseUrl env @ ''/api/chores/delete'', req_query = [],
         req_headers = [(''Content-Type'', ''application/json''), (''Authorization'', ''Bearer '' @ token)],
         req_body = JsonBody [(''chore_id'', chore_id)]\<rparr> log)
       (\<lambda>response log. (responseJson env response, log))"

definition createChore :: "api_env \<Rightarrow> string \<Rightarrow> string \<Rightarrow> string \<Rightarrow> json api" where
  "createChore env descr date token log =
     await (fetch env
        \<lparr>req_method = ''POST'', req_url = baseUrl env @ ''/api/chores'', req_query = [],
         req_headers = [(''Content-Type'', ''application/json''), (''Authorization'', ''Bearer '' @ token)],
         req_body = JsonBody [(''description'', descr), (''date'', date)]\<rparr> log)
       (\<lambda>response log. (responseJson env response, log))"

definition choresVoiceCommand :: "api_env \<Rightarrow> audio \<Rightarrow> string \<Rightarrow> json api" where
  "choresVoiceCommand env audioData token log =
     await (toBlob env audioData log)
       (\<lambda>blob log.
          await (fetch env
             \<lparr>req_method = ''POST'', req_url = baseUrl env @ ''/api/chores/voice'', req_query = [],
              req_headers = [(''Authorization'', ''Bearer '' @ token), (''Content-Type'', contentType blob),
                             (''X-Filename'', ''voice_command.m4a'')],
              req_body = BlobBody blob\<rparr> log)
            (\<lambda>response log.
               if \<not> ok response then (Rejected (HttpError (status response) (body_text response)), log)
               else (responseJson env response, log)))"

text \<open>A call of one method of the client with its arguments, and its execution.\<close>

datatype api_call =
    ProcessTextCommand string "string option"
  | ProcessVoiceCommand audio
  | GetEvents "jsdate option" "jsdate option" int
  | GetTodayEvents
  | GetWeekEvents
  | GetMonthEvents
  | HealthCheck
  | StartConversation
  | SendVoiceMessage blob string string string
  | SendTextMessage string string string string
  | Register string string
  | Login string string
  | GetChores string string
  | AssignChore string string string
  | CompleteChore string string
  | DeleteChore string string
  | CreateChore string string string
  | ChoresVoiceCommand audio string

fun invoke :: "api_env \<Rightarrow> api_call \<Rightarrow> json api" where
  "invoke env (ProcessTextCommand message userId) = processTextCommand env message userId"
| "invoke env (ProcessVoiceCommand audioData) = processVoiceCommand env audioData"
| "invoke env (GetEvents startDate endDate maxResults) = getEvents env startDate endDate maxResults"
| "invoke env GetTodayEvents = getTodayEvents env"
| "invoke env GetWeekEvents = getWeekEvents env"
| "invoke env GetMonthEvents = getMonthEvents env"
| "invoke env HealthCheck = healthCheck env"
| "invoke env StartConversation = startConversation env"
| "invoke env (SendVoiceMessage audioData conversationId voice model) =
     sendVoiceMessage env audioData conversationId voice model"
| "invoke env (SendTextMessage conversationId message voice model) =
     sendTextMessage env conversationId message voice model"
| "invoke env (Register email password) = register env email password"
| "invoke env (Login email password) = login env email password"
| "invoke env (GetChores date token) = getChores env date token"
| "invoke env (AssignChore chore_id user token) = assignChore env chore_id user token"
| "invoke env (CompleteChore chore_id token) = completeChore env chore_id token"
| "invoke env (DeleteChore chore_id token) = deleteChore env chore_id token"
| "invoke env (CreateChore descr date token) = createChore env descr date token"
| "invoke env (ChoresVoiceCommand audioData token) = choresVoiceCommand env audioData token"

text \<open>
  The methods whose body has \<^verbatim>\<open>if (!response.ok) throw new Error(...)\<close>. The others go
  from \<^verbatim>\<open>fetch\<close> straight to \<^verbatim>\<open>return await response.json()\<close>.
\<close>

fun checksStatus :: "api_call \<Rightarrow> bool" where
  "checksStatus (Register email password) = False"
| "checksStatus (Login email password) = False"
| "checksStatus (GetChores date token) = False"
| "checksStatus (AssignChore chore_id user token) = False"
| "checksStatus (CompleteChore chore_id token) = False"
| "checksStatus (DeleteChore chore_id token) = False"
| "checksStatus (CreateChore descr date token) = False"
| "checksStatus call = True"


text \<open>
  A backend that refuses everything, for the examples: it answers a login with 401 and a
  JSON body saying so, a registration with 400, and every other request with 401.
\<close>

definition quoted :: "string \<Rightarrow> string" where
  "quoted s = [CHR 0x22] @ s @ [CHR 0x22]"

definition emptyBlob :: blob where
  "emptyBlob = \<lparr>blob_size = 0, blob_type = []\<rparr>"

definition invalidToken :: response where
  "invalidToken =
     \<lparr>status = 401,
      body_text = ''{'' @ quoted ''detail'' @ '':'' @ quoted ''Invalid token'' @ ''}'',
      body_blob = emptyBlob\<rparr>"

definition invalidCredentials :: response where
  "invalidCredentials =
     \<lparr>status = 401,
      body_text = ''{'' @ quoted ''success'' @ '':false,'' @ quoted ''error'' @ '':''
                  @ quoted ''Invalid credentials'' @ ''}'',
      body_blob = emptyBlob\<rparr>"

definition alreadyRegistered :: response where
  "alreadyRegistered =
     \<lparr>status = 400,
      body_text = ''{'' @ quoted ''success'' @ '':false,'' @ quoted ''error'' @ '':''
                  @ quoted ''Email already registered'' @ ''}'',
      body_blob = emptyBlob\<rparr>"

definition refusingNetwork :: "request list \<Rightarrow> request \<Rightarrow> response outcome" where
  "refusingNetwork log req =
     (if req_url req = ''http://localhost:8000/api/login'' then Resolved invalidCredentials
      else if req_url req = ''http://localhost:8000/api/register'' then Resolved alreadyRegistered
      else Resolved invalidToken)"

definition unreadable :: "string \<Rightarrow> response outcome" where
  "unreadable uri = Rejected NetworkFailure"

definition sampleParse :: "string \<Rightarrow> json option" where
  "sampleParse s =
     map_of
       [(body_text invalidToken, JObj [(''detail'', JStr ''Invalid token'')]),
        (body_text invalidCredentials,
           JObj [(''success'', JBool False), (''error'', JStr ''Invalid credentials'')]),
        (body_text alreadyRegistered,
           JObj [(''success'', JBool False), (''error'', JStr ''Email already registered'')])] s"

definition dayStamp :: "int \<Rightarrow> int \<Rightarrow> string" where
  "dayStamp n ms = showInt n @ ''+'' @ showInt ms"

definition refusingEnv :: api_env where
  "refusingEnv =
     \<lparr>baseUrl = ''http://localhost:8000'', network = refusingNetwork, fetchLocal = unreadable,
      parseJSON = sampleParse, toISOString = dayStamp, now = ValidDate 20759 36000000\<rparr>"

definition loginRequest :: request where
  "loginRequest =
     \<lparr>req_method = ''POST'', req_url = ''http://localhost:8000/api/login'', req_query = [],
      req_headers = [(''Content-Type'', ''application/json'')],
      req_body = JsonBody [(''email'', ''ann@example.org''), (''password'', ''wrong'')]\<rparr>"

definition registerRequest :: request where
  "registerRequest =
     \<lparr>req_method = ''POST'', req_url = ''http://localhost:8000/api/register'', req_query = [],
      req_headers = [(''Content-Type'', ''application/json'')],
      req_body = JsonBody [(''email'', ''ann@example.org''), (''password'', ''secret'')]\<rparr>"

definition startRequest :: request where
  "startRequest =
     \<lparr>req_method = ''POST'', req_url = ''http://localhost:8000/api/conversation/start'',
      req_query = [], req_headers = [(''Content-Type'', ''application/json'')], req_body = NoBody\<rparr>"

definition eventsRequest :: request where
  "eventsRequest =
     \<lparr>req_method = ''GET'', req_url = ''http://localhost:8000/api/events'',
      req_query = [(''max_results'', ''50'')], req_headers = [], req_body = NoBody\<rparr>"

lemmas api_defs =
  processTextCommand_def processVoiceCommand_def getEvents_def getTodayEvents_def
  getWeekEvents_def getMonthEvents_def healthCheck_def startConversation_def
  sendVoiceMessage_def sendTextMessage_def register_def login_def getChores_def
  assignChore_def completeChore_def deleteChore_def createChore_def choresVoiceCommand_def
  await_def fetch_def toBlob_def isoParam_def

lemma invoke_log:
  "snd (invoke env call log) = log \<or> (\<exists>req. snd (invoke env call log) = log @ [req])"
  by (cases call)
     (auto simp add: api_defs Let_def split: outcome.splits audio.splits option.splits jsdate.splits)

lemma invoke_network_failure:
  "snd (invoke env call log) = log @ [req] \<Longrightarrow> network env log req = Rejected e \<Longrightarrow>
   fst (invoke env call log) = Rejected e"
  by (cases call)
     (auto simp add: api_defs Let_def split: outcome.splits audio.splits option.splits jsdate.splits)

lemma invoke_checked_status:
  "checksStatus call \<Longrightarrow> snd (invoke env call log) = log @ [req] \<Longrightarrow>
   network env log req = Resolved r \<Longrightarrow> \<not> ok r \<Longrightarrow>
   \<exists>detail. fst (invoke env call log) = Rejected (HttpError (status r) detail)"
  by (cases call)
     (auto simp add: api_defs Let_def split: outcome.splits audio.splits option.splits jsdate.splits)

lemma invoke_checked_resolved:
  "checksStatus call \<Longrightarrow> fst (invoke env call log) = Resolved j \<Longrightarrow>
   \<exists>req r. snd (invoke env call log) = log @ [req] \<and> network env log req = Resolved r \<and> ok r"
  by (cases call)
     (auto simp add: api_defs Let_def split: outcome.splits audio.splits option.splits jsdate.splits if_splits)

lemma invoke_unchecked:
  "\<not> checksStatus call \<Longrightarrow>
   \<exists>req. snd (invoke env call log) = log @ [req] \<and>
     fst (invoke env call log) =
       (case network env log req of Rejected e \<Rightarrow> Rejected e | Resolved r \<Rightarrow> responseJson env r)"
  by (cases call)
     (auto simp add: api_defs Let_def split: outcome.splits audio.splits option.splits jsdate.splits)

text \<open>
  Claim C2, as amended. The methods that check \<^verbatim>\<open>response.ok\<close> (processTextCommand,
  processVoiceCommand, getEvents and the three methods built on it, healthCheck,
  startConversation, sendVoiceMessage, sendTextMessage, choresVoiceCommand) reject with an
  error carrying the HTTP status whenever the response has a non-success status, and return
  a value only when the status is a success. The other methods (register, login, getChores,
  assignChore, completeChore, deleteChore, createChore) do not look at the status: they
  return the parsed JSON body of whatever response arrives.
\<close>

theorem api_status_signalling:
  "(checksStatus call \<longrightarrow>
      (\<forall>req r. snd (invoke env call log) = log @ [req] \<and> network env log req = Resolved r \<and> \<not> ok r
         \<longrightarrow> (\<exists>detail. fst (invoke env call log) = Rejected (HttpError (status r) detail)))
    \<and> (\<forall>j. fst (invoke env call log) = Resolved j
         \<longrightarrow> (\<exists>req r. snd (invoke env call log) = log @ [req]
               \<and> network env log req = Resolved r \<and> ok r)))
   \<and> (\<not> checksStatus call \<longrightarrow>
      (\<exists>req. snd (invoke env call log) = log @ [req]
         \<and> fst (invoke env call log) =
             (case network env log req of
                Rejected e \<Rightarrow> Rejected e
              | Resolved r \<Rightarrow> responseJson env r)))"
  using invoke_checked_status [of call env log] invoke_checked_resolved [of call env log]
    invoke_unchecked [of call env log]
  by blast

theorem api_status_signalling_witness:
  "(\<exists>detail. fst (invoke refusingEnv StartConversation []) = Rejected (HttpError 401 detail))
   \<and> (\<exists>req. snd (invoke refusingEnv (CompleteChore ''chore-7'' ''expired'') []) = [] @ [req]
         \<and> fst (invoke refusingEnv (CompleteChore ''chore-7'' ''expired'') []) =
             (case network refusingEnv [] req of
                Rejected e \<Rightarrow> Rejected e
              | Resolved r \<Rightarrow> responseJson refusingEnv r))"
proof -
  have sent: "snd (invoke refusingEnv StartConversation []) = [] @ [startRequest]"
    by code_simp
  have answer: "network refusingEnv [] startRequest = Resolved invalidToken"
    by code_simp
  have refused: "\<not> ok invalidToken" "status invalidToken = 401"
    by code_simp+
  have checked: "checksStatus StartConversation"
    by simp
  have plain: "\<not> checksStatus (CompleteChore ''chore-7'' ''expired'')"
    by simp
  from api_status_signalling [of StartConversation refusingEnv "[]"] checked sent answer refused
  have "\<exists>detail. fst (invoke refusingEnv StartConversation []) = Rejected (HttpError 401 detail)"
    by metis
  moreover from api_status_signalling [of "CompleteChore ''chore-7'' ''expired''" refusingEnv "[]"]
    plain
  have "\<exists>req. snd (invoke refusingEnv (CompleteChore ''chore-7'' ''expired'') []) = [] @ [req]
         \<and> fst (invoke refusingEnv (CompleteChore ''chore-7'' ''expired'') []) =
             (case network refusingEnv [] req of
                Rejected e \<Rightarrow> Rejected e
              | Resolved r \<Rightarrow> responseJson refusingEnv r)"
    by blast
  ultimately show ?thesis by blast
qed

text \<open>
  The claim as it was stated, that every method throws on a non-success status, fails for
  \<open>login\<close>: on a 401 with a JSON body it returns that body.
\<close>

theorem login_returns_body_of_401:
  "network refusingEnv [] loginRequest = Resolved invalidCredentials
   \<and> status invalidCredentials = 401
   \<and> \<not> ok invalidCredentials
   \<and> invoke refusingEnv (Login ''ann@example.org'' ''wrong'') [] =
       (Resolved (JObj [(''success'', JBool False), (''error'', JStr ''Invalid credentials'')]),
        [loginRequest])"
  by code_simp

text \<open>
  Claim C6, as amended. No method of the client retries: every call sends at most one HTTP
  request. When the network fails on that request the call fails with that failure; when
  the response has a non-success status, a method that checks the status fails with an
  error carrying it, and a method that does not check returns the parsed body; in none of
  these cases is another request sent.
\<close>

theorem api_single_request:
  "(snd (invoke env call log) = log \<or> (\<exists>req. snd (invoke env call log) = log @ [req]))
   \<and> (\<forall>req e. snd (invoke env call log) = log @ [req] \<and> network env log req = Rejected e
         \<longrightarrow> fst (invoke env call log) = Rejected e)
   \<and> (\<forall>req r. snd (invoke env call log) = log @ [req] \<and> network env log req = Resolved r \<and> \<not> ok r
         \<longrightarrow> (if checksStatus call
              then \<exists>detail. fst (invoke env call log) = Rejected (HttpError (status r) detail)
              else fst (invoke env call log) = responseJson env r))"
proof (intro conjI allI impI)
  show "snd (invoke env call log) = log \<or> (\<exists>req. snd (invoke env call log) = log @ [req])"
    by (rule invoke_log)
next
  fix req e
  assume "snd (invoke env call log) = log @ [req] \<and> network env log req = Rejected e"
  then show "fst (invoke env call log) = Rejected e"
    using invoke_network_failure by blast
next
  fix req r
  assume a: "snd (invoke env call log) = log @ [req] \<and> network env log req = Resolved r \<and> \<not> ok r"
  show "if checksStatus call
        then \<exists>detail. fst (invoke env call log) = Rejected (HttpError (status r) detail)
        else fst (invoke env call log) = responseJson env r"
  proof (cases "checksStatus call")
    case True
    with a invoke_checked_status [of call env log req r] show ?thesis by simp
  next
    case False
    from invoke_unchecked [OF False, of env log] obtain req' where
      r': "snd (invoke env call log) = log @ [req']"
      "fst (invoke env call log) =
         (case network env log req' of Rejected e \<Rightarrow> Rejected e | Resolved r \<Rightarrow> responseJson env r)"
      by blast
    with a have "req' = req" by simp
    with r' a False show ?thesis by simp
  qed
qed

theorem api_single_request_witness:
  "snd (invoke refusingEnv (GetEvents None None 50) []) = [] @ [eventsRequest]
   \<and> (\<exists>detail. fst (invoke refusingEnv (GetEvents None None 50) []) = Rejected (HttpError 401 detail))"
proof -
  have sent: "snd (invoke refusingEnv (GetEvents None None 50) []) = [] @ [eventsRequest]"
    by code_simp
  have answer: "network refusingEnv [] eventsRequest = Resolved invalidToken"
    by code_simp
  have refused: "\<not> ok invalidToken" "status invalidToken = 401"
    by code_simp+
  have checked: "checksStatus (GetEvents None None 50)"
    by simp
  from api_single_request [of refusingEnv "GetEvents None None 50" "[]"] checked sent answer refused
  have "\<exists>detail. fst (invoke refusingEnv (GetEvents None None 50) []) = Rejected (HttpError 401 detail)"
    by metis
  with sent show ?thesis by blast
qed

text \<open>
  The claim as it was stated, that a non-success status makes the call fail, does not hold
  for the methods that do not check the status: \<open>register\<close> returns the body of a 400.
\<close>

theorem register_returns_body_of_400:
  "network refusingEnv [] registerRequest = Resolved alreadyRegistered
   \<and> status alreadyRegistered = 400
   \<and> \<not> ok alreadyRegistered
   \<and> invoke refusingEnv (Register ''ann@example.org'' ''secret'') [] =
       (Resolved (JObj [(''success'', JBool False), (''error'', JStr ''Email already registered'')]),
        [registerRequest])"
  by code_simp

section \<open>The calendar context and the pages\<close>

text \<open>
  The values of \<^verbatim>\<open>CalendarContext\<close> (CalendarContext.tsx) that the voice hook writes: the
  selected date, the index of the current page and the month range. The setters replace
  the field; \<^verbatim>\<open>triggerMic\<close>, a callback, is not part of the data.
\<close>

record calendar =
  selectedDate :: jsdate
  currentPage :: int
  monthRange :: "(jsdate \<times> jsdate) option"

text \<open>
  The \<^verbatim>\<open>pages\<close> array of App.tsx, which the revisions of App.tsx that read the page from
  the calendar context share, and the component the latest of them renders:
  \<^verbatim>\<open>pages[safeCurrentPage]\<close>, with the index clamped into the array.
\<close>

datatype page = TodayPage | WeekPage | MonthPage

definition pages :: "page list" where
  "pages = [TodayPage, WeekPage, MonthPage]"

definition safeCurrentPage :: "calendar \<Rightarrow> int" where
  "safeCurrentPage cal = max 0 (min (currentPage cal) (int (length pages) - 1))"

definition currentComponent :: "calendar \<Rightarrow> page" where
  "currentComponent cal = pages ! nat (safeCurrentPage cal)"

section \<open>Responses of the agent\<close>

text \<open>
  \<^verbatim>\<open>AgentResponse\<close> and \<^verbatim>\<open>ConversationResponse\<close> of api.ts, read through their interfaces;
  the two share their first fields. \<^verbatim>\<open>confidence\<close>, a fraction that the client never reads,
  is left out, and \<^verbatim>\<open>calendar_response\<close> is kept as the JSON value it is.
  \<^verbatim>\<open>queried_view\<close> is not in the interface; the hook reads it with \<^verbatim>\<open>(result as any)\<close>.
\<close>

record reply =
  success :: bool
  message :: string
  calendar_response :: "json option"

record AgentResponse = reply +
  suggestions :: "string list option"

record ConversationResponse = reply +
  conversation_id :: string
  audio_url :: "string option"
  queried_date :: "string list option"
  queried_view :: "string option"

text \<open>
  Truthiness of an optional string: \<^verbatim>\<open>if (x)\<close> holds when the string is there and not
  empty.
\<close>

definition present :: "string option \<Rightarrow> bool" where
  "present x = (case x of None \<Rightarrow> False | Some s \<Rightarrow> s \<noteq> [])"

section \<open>The voice hooks\<close>

text \<open>
  An \<^verbatim>\<open>Audio.Recording\<close> object: its identity (the objects are numbered in the order of
  their creation) and what its \<^verbatim>\<open>getURI()\<close> returns.
\<close>

record recording =
  rec_id :: nat
  rec_uri :: "string option"

text \<open>
  What a hook does to recordings and to the loudspeaker, recorded in the order it happens:
  a recording was created, \<^verbatim>\<open>stopAndUnloadAsync\<close> succeeded on it, the reference was set
  to \<^verbatim>\<open>null\<close>, the processing function was entered with the URI of the captured audio,
  a sound was played, a text was handed to \<^verbatim>\<open>Speech.speak\<close>.
\<close>

datatype capture_event =
    Created nat
  | StoppedAndUnloaded nat
  | RefCleared
  | ProcessingStarted string
  | SoundPlayed string
  | Spoken string

text \<open>
  What the two hooks have in common: the two flags, the \<^verbatim>\<open>recordingRef\<close> cell, and, as
  history of the run, the number of the next recording object and the events so far.
\<close>

record capture =
  isListening :: bool
  isProcessing :: bool
  recordingRef :: "recording option"
  nextRecording :: nat
  trace :: "capture_event list"

text \<open>
  The state of \<^verbatim>\<open>useConversationalVoice\<close> (the revision with silence detection): the
  conversation id, the two timer references, the counter \<^verbatim>\<open>silenceDuration\<close> of the
  metering callback, and the calendar context it writes to. The metering callback is a
  closure of the render in which \<^verbatim>\<open>startListening\<close> was called, and so is the
  \<^verbatim>\<open>stopListening\<close> it calls: the \<^verbatim>\<open>conversationId\<close> they see is the one of that render,
  kept in \<open>intervalConversationId\<close>.
\<close>

record conversational = capture +
  conversationId :: "string option"
  silenceTimerRef :: "nat option"
  meteringIntervalRef :: "nat option"
  silenceDuration :: int
  intervalConversationId :: "string option"
  calendar :: calendar


text \<open>
  How the platform and the backend answer during one call of a hook function: the
  conversation id of \<^verbatim>\<open>apiService.startConversation()\<close>, the permission request, the
  audio mode, \<^verbatim>\<open>Audio.Recording.createAsync\<close> (the URI of the new recording), the id
  \<^verbatim>\<open>setInterval\<close> returns, \<^verbatim>\<open>getStatusAsync\<close> (recording flag and metering level),
  \<^verbatim>\<open>stopAndUnloadAsync\<close>, \<^verbatim>\<open>fetch\<close> of the recorded file, the three backend calls with
  their typed results, \<^verbatim>\<open>Audio.Sound.createAsync\<close> and \<^verbatim>\<open>playAsync\<close>.
\<close>

record device =
  conversationStart :: "string outcome"
  permissions :: "unit outcome"
  audioMode :: "unit outcome"
  createRecording :: "string option outcome"
  intervalId :: nat
  recordingStatus :: "(bool \<times> int option) outcome"
  stopAndUnload :: "unit outcome"
  audioFile :: "string \<Rightarrow> response outcome"
  voiceReply :: "blob \<Rightarrow> string \<Rightarrow> ConversationResponse outcome"
  choresReply :: "blob \<Rightarrow> string \<Rightarrow> json outcome"
  agentReply :: "blob \<Rightarrow> AgentResponse outcome"
  createSound :: "string \<Rightarrow> unit outcome"
  playSound :: "string \<Rightarrow> unit outcome"

text \<open>
  \<^verbatim>\<open>try { ... } catch (error) { ... }\<close> and \<^verbatim>\<open>try { ... } finally { ... }\<close> around a body
  that has run to its result.
\<close>

definition tryCatch :: "'a outcome \<times> 's \<Rightarrow> (js_error \<Rightarrow> 's \<Rightarrow> 'a outcome \<times> 's) \<Rightarrow> 'a outcome \<times> 's" where
  "tryCatch p handler = (case fst p of Resolved v \<Rightarrow> p | Rejected e \<Rightarrow> handler e (snd p))"

definition tryFinally :: "'a outcome \<times> 's \<Rightarrow> ('s \<Rightarrow> 's) \<Rightarrow> 'a outcome \<times> 's" where
  "tryFinally p cleanup = (fst p, cleanup (snd p))"

definition logEvent :: "capture_event \<Rightarrow> 'a capture_scheme \<Rightarrow> 'a capture_scheme" where
  "logEvent ev s = s\<lparr>trace := trace s @ [ev]\<rparr>"

definition clearSilenceTimers :: "conversational \<Rightarrow> conversational" where
  "clearSilenceTimers s = s\<lparr>silenceTimerRef := None, meteringIntervalRef := None\<rparr>"

text \<open>
  \<^verbatim>\<open>playAudioResponse\<close>: load the sound, play it; any failure is caught and dropped
  (the source says: fallback to nothing).
\<close>

definition playAudioResponse :: "device \<Rightarrow> string \<Rightarrow> conversational \<Rightarrow> unit outcome \<times> conversational" where
  "playAudioResponse dev audioUrl s =
     tryCatch
       (await (createSound dev audioUrl, s)
          (\<lambda>sound s. await (playSound dev audioUrl, s)
             (\<lambda>u s. (Resolved (), logEvent (SoundPlayed audioUrl) s))))
       (\<lambda>error s. (Resolved (), s))"

text \<open>
  \<^verbatim>\<open>Speech.speak(text, options)\<close>, which hands the text to the synthesizer and returns.
\<close>

definition speak :: "string \<Rightarrow> 'a capture_scheme \<Rightarrow> unit outcome \<times> 'a capture_scheme" where
  "speak text s = (Resolved (), logEvent (Spoken text) s)"

text \<open>
  The navigation step of \<^verbatim>\<open>processVoiceMessage\<close>: lines 301 to 321 of
  useConversationalVoice.ts, on the calendar context. \<^verbatim>\<open>requestedDate\<close> is a Date object
  and so truthy whenever it was assigned; \<^verbatim>\<open>setMonthRange\<close> is always provided by the
  context provider.
\<close>

definition navigate :: "(string \<Rightarrow> jsdate) \<Rightarrow> ConversationResponse \<Rightarrow> calendar \<Rightarrow> calendar" where
  "navigate newDate result cal =
     (let requestedView = queried_view result;
          requestedDate = (case queried_date result of
                             Some (q # qs) \<Rightarrow> Some (newDate q)
                           | _ \<Rightarrow> None)
      in if requestedView = Some ''week'' then cal\<lparr>currentPage := 1\<rparr>
         else if requestedView = Some ''month'' then
           (case queried_date result of
              Some (q0 # q1 # qs) \<Rightarrow> cal\<lparr>monthRange := Some (newDate q0, newDate q1)\<rparr>
            | _ \<Rightarrow> cal)\<lparr>currentPage := 2\<rparr>
         else (case requestedDate of
                 Some d \<Rightarrow> cal\<lparr>selectedDate := d, currentPage := 0\<rparr>
               | None \<Rightarrow> cal))"

text \<open>
  \<^verbatim>\<open>processVoiceMessage\<close> of the conversational hook.
\<close>

definition processVoiceMessage ::
  "(string \<Rightarrow> jsdate) \<Rightarrow> device \<Rightarrow> string \<Rightarrow> conversational \<Rightarrow> unit outcome \<times> conversational" where
  "processVoiceMessage newDate dev audioUri s =
     tryFinally
       (await (audioFile dev audioUri, logEvent (ProcessingStarted audioUri) s)
          (\<lambda>response s.
             if \<not> ok response then (Rejected (AppError ''Failed to fetch audio file''), s)
             else
               (case conversationId s of
                  None \<Rightarrow> (Rejected (AppError ''No conversation ID''), s)
                | Some cid \<Rightarrow>
                    if cid = [] then (Rejected (AppError ''No conversation ID''), s)
                    else
                      await (voiceReply dev (body_blob response) cid, s)
                        (\<lambda>result s.
                           (let s1 = s\<lparr>calendar := navigate newDate result (calendar s)\<rparr>
                            in case audio_url result of
                                 None \<Rightarrow> speak (message result) s1
                               | Some url \<Rightarrow>
                                   if url = [] then speak (message result) s1
                                   else playAudioResponse dev url s1)))))
       (\<lambda>s. s\<lparr>isProcessing := False\<rparr>)"



text \<open>
  \<^verbatim>\<open>stopListening\<close> and \<^verbatim>\<open>startListening\<close> of the conversational hook (lines 212 to 286).
  \<^verbatim>\<open>startListening\<close> does not look at \<^verbatim>\<open>recordingRef\<close> before it assigns the new
  recording to it.
\<close>

definition stopListening ::
  "(string \<Rightarrow> jsdate) \<Rightarrow> device \<Rightarrow> conversational \<Rightarrow> unit outcome \<times> conversational" where
  "stopListening newDate dev s0 =
     (let s = clearSilenceTimers s0
      in case recordingRef s of
           None \<Rightarrow> (Resolved (), s)
         | Some rec \<Rightarrow>
             tryCatch
               (await (stopAndUnload dev, s\<lparr>isListening := False, isProcessing := True\<rparr>)
                  (\<lambda>u s.
                     (let s1 = logEvent (StoppedAndUnloaded (rec_id rec)) s;
                          uri = rec_uri rec;
                          s2 = logEvent RefCleared (s1\<lparr>recordingRef := None\<rparr>)
                      in case uri of
                           None \<Rightarrow> (Resolved (), s2)
                         | Some u \<Rightarrow>
                             if u = [] then (Resolved (), s2)
                             else processVoiceMessage newDate dev u s2)))
               (\<lambda>error s. (Rejected error, s\<lparr>isProcessing := False\<rparr>)))"

definition startListening :: "device \<Rightarrow> conversational \<Rightarrow> unit outcome \<times> conversational" where
  "startListening dev s0 =
     tryCatch
       (await
          (let s = s0\<lparr>isListening := True, isProcessing := False\<rparr>
           in if present (conversationId s) then (Resolved (), s)
              else await (conversationStart dev, s)
                     (\<lambda>conv s. (Resolved (), s\<lparr>conversationId := Some conv\<rparr>)))
          (\<lambda>u s. await (permissions dev, s)
             (\<lambda>u s. await (audioMode dev, s)
                (\<lambda>u s. await (createRecording dev, s)
                   (\<lambda>uri s.
                      (Resolved (),
                       (logEvent (Created (nextRecording s))
                          (s\<lparr>recordingRef := Some \<lparr>rec_id = nextRecording s, rec_uri = uri\<rparr>\<rparr>))
                         \<lparr>nextRecording := nextRecording s + 1,
                          meteringIntervalRef := Some (intervalId dev),
                          silenceDuration := 0,
                          intervalConversationId := conversationId s0\<rparr>))))))
       (\<lambda>error s. (Rejected error, clearSilenceTimers (s\<lparr>isListening := False, isProcessing := False\<rparr>)))"

text \<open>
  The callback of the metering interval, every 200 ms. The \<^verbatim>\<open>stopListening\<close> it calls
  after three seconds of silence is the one of the render in which \<^verbatim>\<open>startListening\<close>
  ran, which reads that render's \<^verbatim>\<open>conversationId\<close>; the references it reads are the
  current ones. The callback does not await the call: what the call answers is dropped,
  and what it does is taken here as one step.
\<close>

definition stopListeningOfInterval ::
  "(string \<Rightarrow> jsdate) \<Rightarrow> device \<Rightarrow> conversational \<Rightarrow> unit outcome \<times> conversational" where
  "stopListeningOfInterval newDate dev s =
     (let p = stopListening newDate dev (s\<lparr>conversationId := intervalConversationId s\<rparr>)
      in (fst p, (snd p)\<lparr>conversationId := conversationId s\<rparr>))"

definition meteringTick ::
  "(string \<Rightarrow> jsdate) \<Rightarrow> device \<Rightarrow> conversational \<Rightarrow> unit outcome \<times> conversational" where
  "meteringTick newDate dev s =
     (case recordingRef s of
        None \<Rightarrow> (Resolved (), s)
      | Some rec \<Rightarrow>
          await (recordingStatus dev, s)
            (\<lambda>status s.
               case snd status of
                 None \<Rightarrow> (Resolved (), s)
               | Some metering \<Rightarrow>
                   if \<not> fst status then (Resolved (), s)
                   else if metering < - 50 then
                     (let s1 = s\<lparr>silenceDuration := silenceDuration s + 200\<rparr>
                      in if 3000 \<le> silenceDuration s1
                         then (Resolved (), snd (stopListeningOfInterval newDate dev (clearSilenceTimers s1)))
                         else (Resolved (), s1))
                   else (Resolved (), s\<lparr>silenceDuration := 0\<rparr>)))"





text \<open>
  \<^verbatim>\<open>VoiceCommandView\<close>: its state, the text it shows for an error, and its
  \<^verbatim>\<open>processVoiceCommand\<close>. \<open>platformText\<close> gives the message of an error that the
  platform raised. After speaking, the source only logs the calendar response.
\<close>

record voice_command_view = capture +
  lastCommand :: string
  lastResponse :: string
  hasPermission :: bool

definition errorMessage :: "string \<Rightarrow> string" where
  "errorMessage msg =
     (if includes_str msg ''fetch''
        then ''Network error: Please check your internet connection and try again.''
      else if includes_str msg ''HTTP error! status: 404''
        then ''API endpoint not found. Please check the server configuration.''
      else if includes_str msg ''HTTP error! status: 500''
        then ''Server error: The voice processing service is temporarily unavailable.''
      else if includes_str msg ''HTTP error! status: 413''
        then ''Audio file too large. Please try a shorter recording.''
      else if includes_str msg ''Failed to fetch audio file''
        then ''Error reading audio file. Please try recording again.''
      else ''Sorry, I couldn't process your voice command. Please try again.'')"

definition errorText :: "(js_error \<Rightarrow> string) \<Rightarrow> js_error \<Rightarrow> string" where
  "errorText platformText e =
     (case e of
        AppError msg \<Rightarrow> msg
      | HttpError n detail \<Rightarrow> ''HTTP error! status: '' @ showNat n @ '', message: '' @ detail
      | _ \<Rightarrow> platformText e)"

definition view_processVoiceCommand ::
  "(js_error \<Rightarrow> string) \<Rightarrow> device \<Rightarrow> string \<Rightarrow> voice_command_view \<Rightarrow> unit outcome \<times> voice_command_view" where
  "view_processVoiceCommand platformText dev audioUri s =
     tryFinally
       (tryCatch
          (await (audioFile dev audioUri, logEvent (ProcessingStarted audioUri) s)
             (\<lambda>response s.
                if \<not> ok response
                then (Rejected (AppError (''Failed to fetch audio file: '' @ showNat (status response))), s)
                else
                  await (agentReply dev (body_blob response), s)
                    (\<lambda>result s.
                       (let s1 = s\<lparr>lastResponse := message result\<rparr>
                        in if success result \<and> message result \<noteq> []
                           then speak (message result) s1
                           else (Resolved (), s1)))))
          (\<lambda>error s.
             (Resolved (),
              s\<lparr>lastResponse := ''Error: '' @ errorMessage (errorText platformText error)\<rparr>)))
       (\<lambda>s. s\<lparr>isProcessing := False\<rparr>)"

text \<open>
  The events that are a spoken response, and the events a call added to the history.
\<close>

fun spokenBack :: "capture_event \<Rightarrow> bool" where
  "spokenBack (SoundPlayed url) = True"
| "spokenBack (Spoken text) = True"
| "spokenBack ev = False"

definition eventsSince :: "'a capture_scheme \<Rightarrow> 'b capture_scheme \<Rightarrow> capture_event list" where
  "eventsSince before after = drop (length (trace before)) (trace after)"

text \<open>
  The hooks after mounting, and the states they can reach: by any sequence of calls of
  their functions, each against any behaviour of the platform, one call running to its end
  before the next starts. Other components may change the calendar context in between.
\<close>

definition initialVoice :: "calendar \<Rightarrow> conversational" where
  "initialVoice cal =
     \<lparr>isListening = False, isProcessing = False, recordingRef = None, nextRecording = 0, trace = [],
      conversationId = None, silenceTimerRef = None, meteringIntervalRef = None,
      silenceDuration = 0, intervalConversationId = None, calendar = cal\<rparr>"


















text \<open>
  For the examples: a recorded file, three answers of the conversation endpoint, an answer
  of the one-shot endpoint, and a platform on which everything works except, if so chosen,
  the loading of a sound.
\<close>

definition sampleAudio :: response where
  "sampleAudio = \<lparr>status = 200, body_text = [], body_blob = \<lparr>blob_size = 2048, blob_type = ''audio/m4a''\<rparr>\<rparr>"

definition localAudio :: "string \<Rightarrow> response outcome" where
  "localAudio uri = Resolved sampleAudio"

definition weekResponse :: ConversationResponse where
  "weekResponse =
     \<lparr>success = True, message = ''Here is your week.'', calendar_response = None,
      conversation_id = ''conv-1'', audio_url = None,
      queried_date = Some [''2024-03-10T08:00:00''], queried_view = Some ''week''\<rparr>"

definition monthResponse :: ConversationResponse where
  "monthResponse =
     \<lparr>success = True, message = ''March is busy.'', calendar_response = None,
      conversation_id = ''conv-1'', audio_url = Some ''https://cdn.example/reply.mp3'',
      queried_date = Some [''2024-03-05T18:30:00'', ''2024-03-31T00:00:00''],
      queried_view = Some ''month''\<rparr>"

definition dayResponse :: ConversationResponse where
  "dayResponse =
     \<lparr>success = True, message = ''One event on that day.'', calendar_response = None,
      conversation_id = ''conv-1'', audio_url = None,
      queried_date = Some [''2024-02-29T09:00:00''], queried_view = None\<rparr>"

definition agentAnswer :: AgentResponse where
  "agentAnswer =
     \<lparr>success = True, message = ''You have two events.'', calendar_response = None,
      suggestions = None\<rparr>"

definition sampleDevice :: "ConversationResponse \<Rightarrow> unit outcome \<Rightarrow> device" where
  "sampleDevice result sound =
     \<lparr>conversationStart = Resolved ''conv-1'', permissions = Resolved (), audioMode = Resolved (),
      createRecording = Resolved (Some ''file:///rec.m4a''), intervalId = 1,
      recordingStatus = Resolved (True, Some (- 20)), stopAndUnload = Resolved (),
      audioFile = localAudio,
      voiceReply = (\<lambda>audioData cid. Resolved result),
      choresReply = (\<lambda>audioData tok. Resolved (JObj [(''success'', JBool True)])),
      agentReply = (\<lambda>audioData. Resolved agentAnswer),
      createSound = (\<lambda>url. sound),
      playSound = (\<lambda>url. Resolved ())\<rparr>"

definition startCalendar :: calendar where
  "startCalendar = \<lparr>selectedDate = ValidDate 20759 36000000, currentPage = 0, monthRange = None\<rparr>"

definition talking :: conversational where
  "talking = (initialVoice startCalendar)\<lparr>conversationId := Some ''conv-1''\<rparr>"

definition idleView :: voice_command_view where
  "idleView =
     \<lparr>isListening = False, isProcessing = True, recordingRef = None, nextRecording = 0, trace = [],
      lastCommand = [], lastResponse = [], hasPermission = True\<rparr>"

definition noText :: "js_error \<Rightarrow> string" where
  "noText e = []"



definition quietDevice :: device where
  "quietDevice = (sampleDevice weekResponse (Resolved ()))\<lparr>recordingStatus := Resolved (True, Some (- 60))\<rparr>"

lemma playAudioResponse_result:
  "playAudioResponse dev url s =
     (Resolved (),
      if createSound dev url = Resolved () \<and> playSound dev url = Resolved ()
      then logEvent (SoundPlayed url) s else s)"
  by (cases "createSound dev url"; cases "playSound dev url")
     (simp_all add: playAudioResponse_def tryCatch_def await_def)

lemma processVoiceMessage_reply:
  assumes "audioFile dev audioUri = Resolved response" and "ok response"
    and "conversationId s = Some cid" and "cid \<noteq> []"
    and "voiceReply dev (body_blob response) cid = Resolved result"
  shows "fst (processVoiceMessage newDate dev audioUri s) = Resolved ()"
    and "calendar (snd (processVoiceMessage newDate dev audioUri s)) = navigate newDate result (calendar s)"
    and "trace (snd (processVoiceMessage newDate dev audioUri s)) =
           trace s @ ProcessingStarted audioUri #
             (case audio_url result of
                None \<Rightarrow> [Spoken (message result)]
              | Some url \<Rightarrow>
                  if url = [] then [Spoken (message result)]
                  else if createSound dev url = Resolved () \<and> playSound dev url = Resolved ()
                       then [SoundPlayed url] else [])"
  using assms
  by (simp_all add: processVoiceMessage_def tryFinally_def await_def speak_def
      playAudioResponse_result logEvent_def Let_def split: option.splits)

lemma navigate_week:
  "queried_view result = Some ''week'' \<Longrightarrow> currentComponent (navigate newDate result cal) = WeekPage"
  by (simp add: navigate_def currentComponent_def safeCurrentPage_def pages_def)

lemma navigate_month:
  "queried_view result = Some ''month'' \<Longrightarrow>
     currentComponent (navigate newDate result cal) = MonthPage
     \<and> (\<forall>q0 q1 qs. queried_date result = Some (q0 # q1 # qs) \<longrightarrow>
           monthRange (navigate newDate result cal) = Some (newDate q0, newDate q1))"
  by (auto simp add: navigate_def currentComponent_def safeCurrentPage_def pages_def
      split: option.splits list.splits)

lemma navigate_date:
  "queried_view result \<noteq> Some ''week'' \<Longrightarrow> queried_view result \<noteq> Some ''month'' \<Longrightarrow>
   queried_date result = Some (q # qs) \<Longrightarrow>
     selectedDate (navigate newDate result cal) = newDate q
     \<and> currentComponent (navigate newDate result cal) = TodayPage"
  by (simp add: navigate_def currentComponent_def safeCurrentPage_def pages_def)

lemma sample_hyps:
  "audioFile (sampleDevice result sound) ''file:///rec.m4a'' = Resolved sampleAudio
   \<and> ok sampleAudio
   \<and> conversationId talking = Some ''conv-1''
   \<and> ''conv-1'' \<noteq> []
   \<and> voiceReply (sampleDevice result sound) (body_blob sampleAudio) ''conv-1'' = Resolved result
   \<and> agentReply (sampleDevice result sound) (body_blob sampleAudio) = Resolved agentAnswer"
  by (simp add: sampleDevice_def localAudio_def sampleAudio_def ok_def talking_def initialVoice_def)

text \<open>
  The copy of \<^verbatim>\<open>processVoiceMessage\<close> with silence detection navigates as follows, for every
  response that \<^verbatim>\<open>sendVoiceMessage\<close> returns during voice processing: if \<open>queried_view\<close> is
  \<open>week\<close>, the current page becomes the Week view; if it is \<open>month\<close>, the current page
  becomes the Month view and, when \<open>queried_date\<close> has at least two entries, the month range
  becomes the dates parsed from the first two; otherwise, when \<open>queried_date\<close> is not
  empty, the selected date becomes the date parsed from its first entry and the current
  page becomes the Today view.
\<close>

theorem voice_response_navigation:
  assumes "audioFile dev audioUri = Resolved response" and "ok response"
    and "conversationId s = Some cid" and "cid \<noteq> []"
    and "voiceReply dev (body_blob response) cid = Resolved result"
  shows "(queried_view result = Some ''week'' \<longrightarrow>
            currentComponent (calendar (snd (processVoiceMessage newDate dev audioUri s))) = WeekPage)
       \<and> (queried_view result = Some ''month'' \<longrightarrow>
            currentComponent (calendar (snd (processVoiceMessage newDate dev audioUri s))) = MonthPage
            \<and> (\<forall>q0 q1 qs. queried_date result = Some (q0 # q1 # qs) \<longrightarrow>
                  monthRange (calendar (snd (processVoiceMessage newDate dev audioUri s))) =
                    Some (newDate q0, newDate q1)))
       \<and> (queried_view result \<noteq> Some ''week'' \<and> queried_view result \<noteq> Some ''month'' \<longrightarrow>
            (\<forall>q qs. queried_date result = Some (q # qs) \<longrightarrow>
               selectedDate (calendar (snd (processVoiceMessage newDate dev audioUri s))) = newDate q
               \<and> currentComponent (calendar (snd (processVoiceMessage newDate dev audioUri s))) = TodayPage))"
  unfolding processVoiceMessage_reply(2) [OF assms]
  using navigate_week [of result newDate "calendar s"] navigate_month [of result newDate "calendar s"]
    navigate_date [of result _ _ newDate "calendar s"]
  by blast

theorem voice_response_navigation_witness:
  "currentComponent (calendar (snd (processVoiceMessage sampleDate
       (sampleDevice weekResponse (Resolved ())) ''file:///rec.m4a'' talking))) = WeekPage
   \<and> currentComponent (calendar (snd (processVoiceMessage sampleDate
       (sampleDevice monthResponse (Resolved ())) ''file:///rec.m4a'' talking))) = MonthPage
   \<and> monthRange (calendar (snd (processVoiceMessage sampleDate
       (sampleDevice monthResponse (Resolved ())) ''file:///rec.m4a'' talking))) =
         Some (sampleDate ''2024-03-05T18:30:00'', sampleDate ''2024-03-31T00:00:00'')
   \<and> selectedDate (calendar (snd (processVoiceMessage sampleDate
       (sampleDevice dayResponse (Resolved ())) ''file:///rec.m4a'' talking))) =
         sampleDate ''2024-02-29T09:00:00''
   \<and> currentComponent (calendar (snd (processVoiceMessage sampleDate
       (sampleDevice dayResponse (Resolved ())) ''file:///rec.m4a'' talking))) = TodayPage"
proof -
  have week: "queried_view weekResponse = Some ''week''"
    by (simp add: weekResponse_def)
  have month: "queried_view monthResponse = Some ''month''"
    "queried_date monthResponse = Some (''2024-03-05T18:30:00'' # ''2024-03-31T00:00:00'' # [])"
    by (simp_all add: monthResponse_def)
  have day: "queried_view dayResponse \<noteq> Some ''week''" "queried_view dayResponse \<noteq> Some ''month''"
    "queried_date dayResponse = Some (''2024-02-29T09:00:00'' # [])"
    by (simp_all add: dayResponse_def)
  have w: "currentComponent (calendar (snd (processVoiceMessage sampleDate
       (sampleDevice weekResponse (Resolved ())) ''file:///rec.m4a'' talking))) = WeekPage"
    using voice_response_navigation [of "sampleDevice weekResponse (Resolved ())" "''file:///rec.m4a''"
        sampleAudio talking "''conv-1''" weekResponse sampleDate]
      sample_hyps [of weekResponse "Resolved ()"] week
    by blast
  have m: "currentComponent (calendar (snd (processVoiceMessage sampleDate
       (sampleDevice monthResponse (Resolved ())) ''file:///rec.m4a'' talking))) = MonthPage
     \<and> monthRange (calendar (snd (processVoiceMessage sampleDate
       (sampleDevice monthResponse (Resolved ())) ''file:///rec.m4a'' talking))) =
         Some (sampleDate ''2024-03-05T18:30:00'', sampleDate ''2024-03-31T00:00:00'')"
    using voice_response_navigation [of "sampleDevice monthResponse (Resolved ())" "''file:///rec.m4a''"
        sampleAudio talking "''conv-1''" monthResponse sampleDate]
      sample_hyps [of monthResponse "Resolved ()"] month
    by blast
  have d: "selectedDate (calendar (snd (processVoiceMessage sampleDate
       (sampleDevice dayResponse (Resolved ())) ''file:///rec.m4a'' talking))) =
         sampleDate ''2024-02-29T09:00:00''
     \<and> currentComponent (calendar (snd (processVoiceMessage sampleDate
       (sampleDevice dayResponse (Resolved ())) ''file:///rec.m4a'' talking))) = TodayPage"
    using voice_response_navigation [of "sampleDevice dayResponse (Resolved ())" "''file:///rec.m4a''"
        sampleAudio talking "''conv-1''" dayResponse sampleDate]
      sample_hyps [of dayResponse "Resolved ()"] day
    by blast
  from w m d show ?thesis by blast
qed


text \<open>
  Claim C5, as amended. For every voice message that is processed without an error, at
  most one response is spoken and never both kinds. When the response of the conversation
  endpoint has a non-empty \<open>audio_url\<close>, the hook tries to play that audio and the message
  is not synthesized: the audio is the one spoken response when the sound loads and plays,
  and nothing is spoken when it does not. Otherwise the hook synthesizes the message. The
  one-shot voice view, whose responses carry no audio, synthesizes the message when the
  response has its success flag set and a non-empty message, and nothing otherwise.
\<close>

theorem voice_response_spoken:
  assumes "audioFile dev audioUri = Resolved response" and "ok response"
    and "conversationId s = Some cid" and "cid \<noteq> []"
    and "voiceReply dev (body_blob response) cid = Resolved result"
    and "agentReply dev (body_blob response) = Resolved answer"
  shows "fst (processVoiceMessage newDate dev audioUri s) = Resolved ()
       \<and> (\<forall>url. audio_url result = Some url \<and> url \<noteq> [] \<longrightarrow>
             filter spokenBack (eventsSince s (snd (processVoiceMessage newDate dev audioUri s))) =
               (if createSound dev url = Resolved () \<and> playSound dev url = Resolved ()
                then [SoundPlayed url] else []))
       \<and> (\<not> present (audio_url result) \<longrightarrow>
             filter spokenBack (eventsSince s (snd (processVoiceMessage newDate dev audioUri s))) =
               [Spoken (message result)])
       \<and> filter spokenBack (eventsSince v (snd (view_processVoiceCommand platformText dev audioUri v))) =
           (if success answer \<and> message answer \<noteq> [] then [Spoken (message answer)] else [])"
proof -
  have view: "filter spokenBack (eventsSince v (snd (view_processVoiceCommand platformText dev audioUri v))) =
           (if success answer \<and> message answer \<noteq> [] then [Spoken (message answer)] else [])"
    using assms(1,2,6)
    by (simp add: view_processVoiceCommand_def tryFinally_def tryCatch_def await_def speak_def
        logEvent_def eventsSince_def Let_def)
  show ?thesis
    using processVoiceMessage_reply(1,3) [OF assms(1-5), of newDate] view
    by (auto simp add: eventsSince_def present_def split: option.splits)
qed

theorem voice_response_spoken_witness:
  "filter spokenBack (eventsSince talking (snd (processVoiceMessage sampleDate
       (sampleDevice monthResponse (Resolved ())) ''file:///rec.m4a'' talking))) =
     [SoundPlayed ''https://cdn.example/reply.mp3'']
   \<and> filter spokenBack (eventsSince talking (snd (processVoiceMessage sampleDate
       (sampleDevice weekResponse (Resolved ())) ''file:///rec.m4a'' talking))) =
     [Spoken ''Here is your week.'']
   \<and> filter spokenBack (eventsSince idleView (snd (view_processVoiceCommand noText
       (sampleDevice weekResponse (Resolved ())) ''file:///rec.m4a'' idleView))) =
     [Spoken ''You have two events.'']"
proof -
  have month: "audio_url monthResponse = Some ''https://cdn.example/reply.mp3''"
    "''https://cdn.example/reply.mp3'' \<noteq> []"
    "createSound (sampleDevice monthResponse (Resolved ())) ''https://cdn.example/reply.mp3'' = Resolved ()"
    "playSound (sampleDevice monthResponse (Resolved ())) ''https://cdn.example/reply.mp3'' = Resolved ()"
    by (simp_all add: monthResponse_def sampleDevice_def)
  have week: "\<not> present (audio_url weekResponse)" "message weekResponse = ''Here is your week.''"
    by (simp_all add: weekResponse_def present_def)
  have answer: "success agentAnswer" "message agentAnswer = ''You have two events.''"
    by (simp_all add: agentAnswer_def)
  have m: "\<forall>url. audio_url monthResponse = Some url \<and> url \<noteq> [] \<longrightarrow>
             filter spokenBack (eventsSince talking (snd (processVoiceMessage sampleDate
                (sampleDevice monthResponse (Resolved ())) ''file:///rec.m4a'' talking))) =
               (if createSound (sampleDevice monthResponse (Resolved ())) url = Resolved ()
                   \<and> playSound (sampleDevice monthResponse (Resolved ())) url = Resolved ()
                then [SoundPlayed url] else [])"
    using voice_response_spoken [of "sampleDevice monthResponse (Resolved ())" "''file:///rec.m4a''"
        sampleAudio talking "''conv-1''" monthResponse agentAnswer sampleDate idleView noText]
      sample_hyps [of monthResponse "Resolved ()"]
    by blast
  have w: "(\<not> present (audio_url weekResponse) \<longrightarrow>
             filter spokenBack (eventsSince talking (snd (processVoiceMessage sampleDate
                (sampleDevice weekResponse (Resolved ())) ''file:///rec.m4a'' talking))) =
               [Spoken (message weekResponse)])
       \<and> filter spokenBack (eventsSince idleView (snd (view_processVoiceCommand noText
             (sampleDevice weekResponse (Resolved ())) ''file:///rec.m4a'' idleView))) =
           (if success agentAnswer \<and> message agentAnswer \<noteq> [] then [Spoken (message agentAnswer)] else [])"
    using voice_response_spoken [of "sampleDevice weekResponse (Resolved ())" "''file:///rec.m4a''"
        sampleAudio talking "''conv-1''" weekResponse agentAnswer sampleDate idleView noText]
      sample_hyps [of weekResponse "Resolved ()"]
    by blast
  from m month have "filter spokenBack (eventsSince talking (snd (processVoiceMessage sampleDate
       (sampleDevice monthResponse (Resolved ())) ''file:///rec.m4a'' talking))) =
     [SoundPlayed ''https://cdn.example/reply.mp3'']"
    by simp
  moreover from w week have "filter spokenBack (eventsSince talking (snd (processVoiceMessage sampleDate
       (sampleDevice weekResponse (Resolved ())) ''file:///rec.m4a'' talking))) =
     [Spoken ''Here is your week.'']"
    by simp
  moreover from w answer have "filter spokenBack (eventsSince idleView (snd (view_processVoiceCommand noText
       (sampleDevice weekResponse (Resolved ())) ''file:///rec.m4a'' idleView))) =
     [Spoken ''You have two events.'']"
    by simp
  ultimately show ?thesis by blast
qed

text \<open>
  The claim as it was stated, that exactly one response is spoken, fails when the audio of
  the response cannot be loaded: the message is processed without an error and nothing is
  spoken.
\<close>

theorem unplayable_audio_is_silent:
  "audio_url monthResponse = Some ''https://cdn.example/reply.mp3''
   \<and> fst (processVoiceMessage sampleDate (sampleDevice monthResponse (Rejected PlatformError))
        ''file:///rec.m4a'' talking) = Resolved ()
   \<and> filter spokenBack (eventsSince talking (snd (processVoiceMessage sampleDate
        (sampleDevice monthResponse (Rejected PlatformError)) ''file:///rec.m4a'' talking))) = []"
  by code_simp





































text \<open>
  One run: start on a fresh hook, then stop.
\<close>

lemma stop_after_start_events:
  "recordingRef (snd (startListening (sampleDevice weekResponse (Resolved ())) (initialVoice startCalendar))) =
     Some \<lparr>rec_id = 0, rec_uri = Some ''file:///rec.m4a''\<rparr>
   \<and> trace (snd (stopListening sampleDate (sampleDevice weekResponse (Resolved ()))
        (snd (startListening (sampleDevice weekResponse (Resolved ())) (initialVoice startCalendar))))) =
     [Created 0, StoppedAndUnloaded 0, RefCleared, ProcessingStarted ''file:///rec.m4a'',
      Spoken ''Here is your week.'']
   \<and> recordingRef (snd (stopListening sampleDate (sampleDevice weekResponse (Resolved ()))
        (snd (startListening (sampleDevice weekResponse (Resolved ())) (initialVoice startCalendar))))) = None"
  by code_simp




text \<open>
  The silence stop of a first conversation: the conversation was started by the very call
  that set up the interval, so the callback's \<^verbatim>\<open>stopListening\<close> still sees no conversation
  id. It releases the recording and then fails with the error of a missing conversation
  id, before anything is sent to the backend; nothing is spoken.
\<close>

lemma silence_stop_on_first_conversation:
  "conversationId (snd (startListening quietDevice (initialVoice startCalendar))) = Some ''conv-1''
   \<and> intervalConversationId (snd (startListening quietDevice (initialVoice startCalendar))) = None
   \<and> fst (stopListeningOfInterval sampleDate quietDevice
        (snd (startListening quietDevice (initialVoice startCalendar)))) =
       Rejected (AppError ''No conversation ID'')
   \<and> silenceDuration (snd (meteringTick sampleDate quietDevice
        (snd (startListening quietDevice (initialVoice startCalendar))))) = 200
   \<and> trace (snd (meteringTick sampleDate quietDevice
        ((snd (startListening quietDevice (initialVoice startCalendar)))\<lparr>silenceDuration := 2800\<rparr>))) =
       [Created 0, StoppedAndUnloaded 0, RefCleared, ProcessingStarted ''file:///rec.m4a'']"
  by code_simp

section \<open>Authentication\<close>

text \<open>
  The result type of \<^verbatim>\<open>apiService.login\<close> and \<^verbatim>\<open>apiService.register\<close>, the state of
  \<^verbatim>\<open>AuthProvider\<close> together with the local storage (\<^verbatim>\<open>AsyncStorage\<close>), and what the
  provider runs against: the answers of the two backend calls and the keys whose write to
  local storage fails.
\<close>

record login_result =
  res_success :: bool
  res_token :: "string option"
  res_error :: "string option"

record auth_provider =
  token :: "string option"
  user :: "string option"
  loading :: bool
  asyncStorage :: "string \<Rightarrow> string option"

record auth_env =
  loginReply :: "string \<Rightarrow> string \<Rightarrow> login_result outcome"
  registerReply :: "string \<Rightarrow> string \<Rightarrow> login_result outcome"
  writeFails :: "string \<Rightarrow> bool"

text \<open>
  \<^verbatim>\<open>AsyncStorage.setItem(key, value)\<close>.
\<close>

definition setItem :: "auth_env \<Rightarrow> string \<Rightarrow> string \<Rightarrow> auth_provider \<Rightarrow> unit outcome \<times> auth_provider" where
  "setItem env key v s =
     (if writeFails env key then (Rejected PlatformError, s)
      else (Resolved (), s\<lparr>asyncStorage := (asyncStorage s)(key \<mapsto> v)\<rparr>))"

text \<open>
  \<^verbatim>\<open>login\<close> of \<^verbatim>\<open>AuthProvider\<close>. The test \<^verbatim>\<open>res.success && res.token\<close> holds for a set
  flag and a token that is there and not empty. The promise always fulfils: with
  \<^verbatim>\<open>true\<close>, or with \<^verbatim>\<open>false\<close> from the second \<^verbatim>\<open>return\<close> and from the \<^verbatim>\<open>catch\<close>.
\<close>

definition auth_login :: "auth_env \<Rightarrow> string \<Rightarrow> string \<Rightarrow> auth_provider \<Rightarrow> bool outcome \<times> auth_provider" where
  "auth_login env email password s =
     tryCatch
       (await (loginReply env email password, s)
          (\<lambda>res s.
             case res_token res of
               None \<Rightarrow> (Resolved False, s)
             | Some tok \<Rightarrow>
                 if res_success res \<and> tok \<noteq> [] then
                   await (setItem env ''token'' tok (s\<lparr>token := Some tok, user := Some email\<rparr>))
                     (\<lambda>u s. await (setItem env ''user'' email s)
                        (\<lambda>u s. (Resolved True, s)))
                 else (Resolved False, s)))
       (\<lambda>error s. (Resolved False, s))"

definition auth_register :: "auth_env \<Rightarrow> string \<Rightarrow> string \<Rightarrow> auth_provider \<Rightarrow> bool outcome \<times> auth_provider" where
  "auth_register env email password s =
     tryCatch
       (await (registerReply env email password, s) (\<lambda>res s. (Resolved (res_success res), s)))
       (\<lambda>error s. (Resolved False, s))"

definition auth_logout :: "auth_provider \<Rightarrow> auth_provider" where
  "auth_logout s =
     s\<lparr>token := None, user := None,
       asyncStorage := (asyncStorage s)(''token'' := None, ''user'' := None)\<rparr>"

text \<open>
  A response that passes the test of \<^verbatim>\<open>login\<close>.
\<close>

definition accepted :: "login_result \<Rightarrow> bool" where
  "accepted res = (res_success res \<and> present (res_token res))"

text \<open>
  For the examples: a provider with nobody logged in, three answers of the backend, and a
  local storage that works or is full.
\<close>

definition loggedOut :: auth_provider where
  "loggedOut = \<lparr>token = None, user = None, loading = False, asyncStorage = Map.empty\<rparr>"

definition grantedReply :: "string \<Rightarrow> string \<Rightarrow> login_result outcome" where
  "grantedReply email password =
     Resolved \<lparr>res_success = True, res_token = Some ''jwt-1'', res_error = None\<rparr>"

definition emptyTokenReply :: "string \<Rightarrow> string \<Rightarrow> login_result outcome" where
  "emptyTokenReply email password =
     Resolved \<lparr>res_success = True, res_token = Some [], res_error = None\<rparr>"

definition deniedReply :: "string \<Rightarrow> string \<Rightarrow> login_result outcome" where
  "deniedReply email password =
     Resolved \<lparr>res_success = False, res_token = None, res_error = Some ''Invalid credentials''\<rparr>"

definition storageWorks :: "string \<Rightarrow> bool" where
  "storageWorks key = False"

definition storageFull :: "string \<Rightarrow> bool" where
  "storageFull key = True"

definition authEnv :: "(string \<Rightarrow> string \<Rightarrow> login_result outcome) \<Rightarrow> (string \<Rightarrow> bool) \<Rightarrow> auth_env" where
  "authEnv r w = \<lparr>loginReply = r, registerReply = r, writeFails = w\<rparr>"

lemma auth_login_accepted:
  "loginReply env email password = Resolved res \<Longrightarrow> res_success res \<Longrightarrow> res_token res = Some tok \<Longrightarrow>
   tok \<noteq> [] \<Longrightarrow> \<not> writeFails env ''token'' \<Longrightarrow> \<not> writeFails env ''user'' \<Longrightarrow>
   auth_login env email password s =
     (Resolved True,
      s\<lparr>token := Some tok, user := Some email,
        asyncStorage := (asyncStorage s)(''token'' \<mapsto> tok, ''user'' \<mapsto> email)\<rparr>)"
  by (simp add: auth_login_def tryCatch_def await_def setItem_def)

lemma auth_login_refused:
  "loginReply env email password = Resolved res \<Longrightarrow> \<not> accepted res \<Longrightarrow>
   auth_login env email password s = (Resolved False, s)"
  by (auto simp add: auth_login_def tryCatch_def await_def accepted_def present_def split: option.splits)

lemma auth_login_thrown:
  "loginReply env email password = Rejected e \<Longrightarrow> auth_login env email password s = (Resolved False, s)"
  by (simp add: auth_login_def tryCatch_def await_def)

text \<open>
  Claim C8, as amended. Provided the two writes to local storage succeed, \<open>login\<close>
  returns true if and only if the backend's response has success set and contains a
  non-empty token; in that case the token and the email are stored in the auth context
  and in local storage. On a response without success or without a non-empty token, and
  on an error thrown by the backend call, it returns false and neither the context nor
  local storage is modified.
\<close>

theorem login_outcome:
  "(\<forall>res tok. loginReply env email password = Resolved res \<and> res_success res
        \<and> res_token res = Some tok \<and> tok \<noteq> []
        \<and> \<not> writeFails env ''token'' \<and> \<not> writeFails env ''user'' \<longrightarrow>
      auth_login env email password s =
        (Resolved True,
         s\<lparr>token := Some tok, user := Some email,
           asyncStorage := (asyncStorage s)(''token'' \<mapsto> tok, ''user'' \<mapsto> email)\<rparr>))
   \<and> ((\<exists>e. loginReply env email password = Rejected e)
       \<or> (\<exists>res. loginReply env email password = Resolved res \<and> \<not> accepted res) \<longrightarrow>
      auth_login env email password s = (Resolved False, s))
   \<and> (\<not> writeFails env ''token'' \<and> \<not> writeFails env ''user'' \<longrightarrow>
      (fst (auth_login env email password s) = Resolved True) =
        (\<exists>res. loginReply env email password = Resolved res \<and> accepted res))"
proof (intro conjI allI impI)
  fix res tok
  assume "loginReply env email password = Resolved res \<and> res_success res
        \<and> res_token res = Some tok \<and> tok \<noteq> []
        \<and> \<not> writeFails env ''token'' \<and> \<not> writeFails env ''user''"
  then show "auth_login env email password s =
        (Resolved True,
         s\<lparr>token := Some tok, user := Some email,
           asyncStorage := (asyncStorage s)(''token'' \<mapsto> tok, ''user'' \<mapsto> email)\<rparr>)"
    using auth_login_accepted by blast
next
  assume "(\<exists>e. loginReply env email password = Rejected e)
       \<or> (\<exists>res. loginReply env email password = Resolved res \<and> \<not> accepted res)"
  then show "auth_login env email password s = (Resolved False, s)"
    using auth_login_refused auth_login_thrown by blast
next
  assume w: "\<not> writeFails env ''token'' \<and> \<not> writeFails env ''user''"
  show "(fst (auth_login env email password s) = Resolved True) =
        (\<exists>res. loginReply env email password = Resolved res \<and> accepted res)"
  proof (cases "loginReply env email password")
    case (Rejected e)
    then show ?thesis by (simp add: auth_login_thrown)
  next
    case (Resolved res)
    show ?thesis
    proof (cases "accepted res")
      case False
      with Resolved show ?thesis by (simp add: auth_login_refused)
    next
      case True
      then obtain tok where "res_success res" "res_token res = Some tok" "tok \<noteq> []"
        by (auto simp add: accepted_def present_def split: option.splits)
      with Resolved w True show ?thesis
        by (simp add: auth_login_accepted)
    qed
  qed
qed

theorem login_outcome_witness:
  "fst (auth_login (authEnv grantedReply storageWorks) ''ann@example.org'' ''secret'' loggedOut) = Resolved True
   \<and> token (snd (auth_login (authEnv grantedReply storageWorks) ''ann@example.org'' ''secret'' loggedOut)) = Some ''jwt-1''
   \<and> user (snd (auth_login (authEnv grantedReply storageWorks) ''ann@example.org'' ''secret'' loggedOut)) = Some ''ann@example.org''
   \<and> asyncStorage (snd (auth_login (authEnv grantedReply storageWorks) ''ann@example.org'' ''secret'' loggedOut)) ''token'' = Some ''jwt-1''
   \<and> asyncStorage (snd (auth_login (authEnv grantedReply storageWorks) ''ann@example.org'' ''secret'' loggedOut)) ''user'' = Some ''ann@example.org''
   \<and> auth_login (authEnv deniedReply storageWorks) ''ann@example.org'' ''wrong'' loggedOut = (Resolved False, loggedOut)"
proof -
  have g: "loginReply (authEnv grantedReply storageWorks) ''ann@example.org'' ''secret'' =
        Resolved \<lparr>res_success = True, res_token = Some ''jwt-1'', res_error = None\<rparr>
      \<and> res_success \<lparr>res_success = True, res_token = Some ''jwt-1'', res_error = None\<rparr>
      \<and> res_token \<lparr>res_success = True, res_token = Some ''jwt-1'', res_error = None\<rparr> = Some ''jwt-1''
      \<and> ''jwt-1'' \<noteq> []
      \<and> \<not> writeFails (authEnv grantedReply storageWorks) ''token''
      \<and> \<not> writeFails (authEnv grantedReply storageWorks) ''user''"
    by (simp add: authEnv_def grantedReply_def storageWorks_def)
  have d: "loginReply (authEnv deniedReply storageWorks) ''ann@example.org'' ''wrong'' =
        Resolved \<lparr>res_success = False, res_token = None, res_error = Some ''Invalid credentials''\<rparr>
      \<and> \<not> accepted \<lparr>res_success = False, res_token = None, res_error = Some ''Invalid credentials''\<rparr>"
    by (simp add: authEnv_def deniedReply_def accepted_def)
  from login_outcome [of "authEnv grantedReply storageWorks" "''ann@example.org''" "''secret''" loggedOut] g
  have "auth_login (authEnv grantedReply storageWorks) ''ann@example.org'' ''secret'' loggedOut =
        (Resolved True,
         loggedOut\<lparr>token := Some ''jwt-1'', user := Some ''ann@example.org'',
           asyncStorage := (asyncStorage loggedOut)(''token'' \<mapsto> ''jwt-1'', ''user'' \<mapsto> ''ann@example.org'')\<rparr>)"
    by blast
  moreover from login_outcome [of "authEnv deniedReply storageWorks" "''ann@example.org''" "''wrong''" loggedOut] d
  have "auth_login (authEnv deniedReply storageWorks) ''ann@example.org'' ''wrong'' loggedOut = (Resolved False, loggedOut)"
    by blast
  ultimately show ?thesis by simp
qed

text \<open>
  The claim as it was stated fails on a response with success set and an empty token, for
  which \<open>login\<close> returns false; and on an error thrown by the first write to local
  storage, for which it returns false with the token and the user already set in the
  context.
\<close>

theorem login_false_despite_token:
  "loginReply (authEnv emptyTokenReply storageWorks) ''ann@example.org'' ''secret'' =
      Resolved \<lparr>res_success = True, res_token = Some [], res_error = None\<rparr>
   \<and> fst (auth_login (authEnv emptyTokenReply storageWorks) ''ann@example.org'' ''secret'' loggedOut) = Resolved False
   \<and> loginReply (authEnv grantedReply storageFull) ''ann@example.org'' ''secret'' =
      Resolved \<lparr>res_success = True, res_token = Some ''jwt-1'', res_error = None\<rparr>
   \<and> fst (auth_login (authEnv grantedReply storageFull) ''ann@example.org'' ''secret'' loggedOut) = Resolved False
   \<and> token (snd (auth_login (authEnv grantedReply storageFull) ''ann@example.org'' ''secret'' loggedOut)) = Some ''jwt-1''
   \<and> user (snd (auth_login (authEnv grantedReply storageFull) ''ann@example.org'' ''secret'' loggedOut)) = Some ''ann@example.org''
   \<and> token loggedOut = None"
  by (simp add: authEnv_def emptyTokenReply_def grantedReply_def storageFull_def storageWorks_def
      auth_login_def tryCatch_def await_def setItem_def loggedOut_def)

end
